theory Spec2Isabelle
  imports Main
begin

section \<open>The workspace page: data model\<close>

text \<open>
  The page \<^verbatim>\<open>src/pages/workspaces/[id].tsx\<close> is a React component. Its data arrives as
  parsed JSON (\<^verbatim>\<open>any\<close>); a field that is absent, \<^verbatim>\<open>undefined\<close> or \<^verbatim>\<open>null\<close> is \<open>None\<close>
  here, a field that holds a value is \<open>Some\<close>. Numbers are integers. The records below
  list the fields the page reads. Field names follow the source; a prefix is added only
  where two objects of the source share a field name.
\<close>

datatype js_error = TypeError | FetchError

text \<open>The elements of \<^verbatim>\<open>contributor.files_contributed\<close>.\<close>

record contributed_file =
  file_path :: "string option"
  lines_contributed :: "int option"
  ownership_percentage :: "int option"
  last_modified :: "string option"

text \<open>The elements of \<^verbatim>\<open>result.contributors\<close>.\<close>

record contributor =
  username :: "string option"
  email :: "string option"
  total_commits :: "int option"
  lines_added :: "int option"
  lines_deleted :: "int option"
  active_days :: "int option"
  expertise_level :: "string option"
  bus_factor_risk :: "string option"
  first_commit_date :: "string option"
  last_commit_date :: "string option"
  commit_frequency :: "string option"
  knowledge_areas :: "string list option"
  contribution_summary :: "string option"
  files_contributed :: "contributed_file list option"

text \<open>\<^verbatim>\<open>result.codebase_health\<close>; its \<^verbatim>\<open>total_commits\<close> is \<open>health_total_commits\<close>.\<close>

record codebase_health =
  total_files :: "int option"
  health_total_commits :: "int option"
  active_contributors :: "int option"
  bus_factor :: "int option"
  hot_spots :: "string list option"

text \<open>\<^verbatim>\<open>analysis.result\<close>, declared \<^verbatim>\<open>any\<close>.\<close>

record analysis_result =
  project_summary :: "string option"
  primary_languages :: "string list option"
  contributors :: "contributor list option"
  health :: "codebase_health option"
  recommendations :: "string list option"

text \<open>
  \<^verbatim>\<open>WorkspaceData.analysis\<close>; its \<^verbatim>\<open>id\<close> is \<open>analysis_id\<close>, its \<^verbatim>\<open>status\<close> is
  \<open>analysis_status\<close>.
\<close>

record analysis_data =
  analysis_id :: string
  analysis_status :: string
  progress :: "int option"
  message :: "string option"
  current_step :: "string option"
  startedAt :: "string option"
  completedAt :: "string option"
  hasResult :: "bool option"
  result :: "analysis_result option"

record WorkspaceData =
  workspace_id :: string
  name :: string
  github_repository :: string
  createdAt :: string
  analysis :: "analysis_data option"

text \<open>
  The body \<^verbatim>\<open>data\<close> of a response of either endpoint, with the four fields the page
  reads: \<^verbatim>\<open>data.error\<close>, \<^verbatim>\<open>data.status\<close>, \<^verbatim>\<open>data.analysis\<close>, \<^verbatim>\<open>data.workspace\<close>.
\<close>

record response_data =
  data_error :: "string option"
  data_status :: "string option"
  data_analysis :: "analysis_data option"
  data_workspace :: "WorkspaceData option"

text \<open>
  What \<^verbatim>\<open>await fetch(...)\<close> followed by \<^verbatim>\<open>await res.json()\<close> gives: either of them
  rejects, or there is \<^verbatim>\<open>res.ok\<close> and the parsed body (\<open>None\<close> when the body is \<^verbatim>\<open>null\<close>).
\<close>

datatype response = Rejected | Response bool "response_data option"

subsection \<open>JavaScript operators\<close>

text \<open>\<^verbatim>\<open>x.f\<close> on a value that may be \<^verbatim>\<open>undefined\<close> throws a TypeError; \<^verbatim>\<open>x?.f\<close> does not.\<close>

definition deref :: "'a option \<Rightarrow> js_error + 'a" where
  "deref x = (case x of None \<Rightarrow> Inl TypeError | Some v \<Rightarrow> Inr v)"

definition chain :: "'a option \<Rightarrow> ('a \<Rightarrow> 'b option) \<Rightarrow> 'b option" where
  "chain x f = (case x of None \<Rightarrow> None | Some v \<Rightarrow> f v)"

definition bind_js :: "js_error + 'a \<Rightarrow> ('a \<Rightarrow> js_error + 'b) \<Rightarrow> js_error + 'b" where
  "bind_js m f = (case m of Inl e \<Rightarrow> Inl e | Inr v \<Rightarrow> f v)"

text \<open>Truthiness of a number, a string, a boolean.\<close>

definition truthy_num :: "int option \<Rightarrow> bool" where
  "truthy_num x = (case x of None \<Rightarrow> False | Some n \<Rightarrow> n \<noteq> 0)"

definition truthy_str :: "string option \<Rightarrow> bool" where
  "truthy_str x = (case x of None \<Rightarrow> False | Some s \<Rightarrow> s \<noteq> [])"

definition truthy_bool :: "bool option \<Rightarrow> bool" where
  "truthy_bool x = (case x of None \<Rightarrow> False | Some b \<Rightarrow> b)"

text \<open>\<^verbatim>\<open>x || d\<close> for a number and for a string.\<close>

definition or_num :: "int option \<Rightarrow> int \<Rightarrow> int" where
  "or_num x d = (case x of None \<Rightarrow> d | Some n \<Rightarrow> if n \<noteq> 0 then n else d)"

definition or_str :: "string option \<Rightarrow> string \<Rightarrow> string" where
  "or_str x d = (case x of None \<Rightarrow> d | Some s \<Rightarrow> if s \<noteq> [] then s else d)"

section \<open>The component's state\<close>

text \<open>
  The \<^verbatim>\<open>useState\<close> cells \<^verbatim>\<open>workspace\<close>, \<^verbatim>\<open>loading\<close>, \<^verbatim>\<open>error\<close>, \<^verbatim>\<open>selectedContributor\<close>, the
  ref \<^verbatim>\<open>pollingRef\<close>, and the part of the browser the component writes: \<open>intervals\<close> are
  the intervals it has registered with \<^verbatim>\<open>window.setInterval\<close> and not cleared, each with
  its handle and its delay in milliseconds; \<open>last_handle\<close> is the last handle the browser
  gave out. \<^verbatim>\<open>setInterval\<close> returns a fresh handle greater than zero.
\<close>

record page_state =
  workspace :: "WorkspaceData option"
  loading :: bool
  error :: string
  selectedContributor :: "contributor option"
  pollingRef :: "nat option"
  intervals :: "(nat \<times> nat) list"
  last_handle :: nat

definition initial :: "nat \<Rightarrow> page_state" where
  "initial h = \<lparr> workspace = None, loading = True, error = [], selectedContributor = None,
     pollingRef = None, intervals = [], last_handle = h \<rparr>"

definition setInterval :: "nat \<Rightarrow> page_state \<Rightarrow> nat \<times> page_state" where
  "setInterval ms s =
     (let h = Suc (last_handle s)
      in (h, s\<lparr> intervals := (h, ms) # intervals s, last_handle := h \<rparr>))"

definition clearInterval :: "nat \<Rightarrow> page_state \<Rightarrow> page_state" where
  "clearInterval h s = s\<lparr> intervals := filter (\<lambda>p. fst p \<noteq> h) (intervals s) \<rparr>"

text \<open>\<^verbatim>\<open>if (pollingRef.current)\<close>: the ref holds a handle other than 0.\<close>

definition polling :: "page_state \<Rightarrow> bool" where
  "polling s = (case pollingRef s of None \<Rightarrow> False | Some h \<Rightarrow> h \<noteq> 0)"

text \<open>
  \<^verbatim>\<open>if (pollingRef.current) { clearInterval(pollingRef.current); pollingRef.current = null }\<close>,
  which the source has four times.
\<close>

definition stop_polling :: "page_state \<Rightarrow> page_state" where
  "stop_polling s =
     (case pollingRef s of
        None \<Rightarrow> s
      | Some h \<Rightarrow> if h \<noteq> 0 then (clearInterval h s)\<lparr> pollingRef := None \<rparr> else s)"

section \<open>pollStatus and the interval callback\<close>

definition pollStatus :: "page_state \<Rightarrow> page_state" where
  "pollStatus s =
     (if polling s then s
      else (let s1 = s\<lparr> error := [], loading := True \<rparr>;
                (h, s2) = setInterval 2000 s1
            in s2\<lparr> pollingRef := Some h \<rparr>))"

text \<open>\<^verbatim>\<open>analysis && analysis.result\<close>.\<close>

definition has_result :: "analysis_data option \<Rightarrow> bool" where
  "has_result a = (case a of None \<Rightarrow> False | Some x \<Rightarrow> result x \<noteq> None)"

text \<open>
  \<^verbatim>\<open>setWorkspace((prev) => { if (!prev) return prev; return { ...prev, analysis: { ...analysis } } })\<close>
\<close>

definition set_analysis :: "analysis_data \<Rightarrow> page_state \<Rightarrow> page_state" where
  "set_analysis a s =
     s\<lparr> workspace := (case workspace s of None \<Rightarrow> None | Some prev \<Rightarrow> Some (prev\<lparr> analysis := Some a \<rparr>)) \<rparr>"

text \<open>
  How the \<^verbatim>\<open>try\<close> block of the interval callback ends, after its two \<^verbatim>\<open>await\<close>s have
  settled with \<open>r\<close>: it throws, it returns, or it reaches the \<^verbatim>\<open>await\<close> of the final
  workspace fetch (other callbacks run before \<open>poll_final\<close> continues it).
\<close>

datatype completion = Threw js_error page_state | Returned page_state | Awaiting page_state

definition poll_try :: "response \<Rightarrow> page_state \<Rightarrow> completion" where
  "poll_try r s =
     (case r of
        Rejected \<Rightarrow> Threw FetchError s
      | Response ok d \<Rightarrow>
          if \<not> ok then
            Returned ((stop_polling (s\<lparr> error := or_str (chain d data_error) ''Failed to fetch status'' \<rparr>))
                        \<lparr> loading := False \<rparr>)
          else
            (case d of
               None \<Rightarrow> Threw TypeError s
             | Some dat \<Rightarrow>
                 (let s1 = (case data_analysis dat of None \<Rightarrow> s | Some a \<Rightarrow> set_analysis a s)
                  in if data_status dat = Some ''completed'' \<or> has_result (data_analysis dat) then
                       (let s2 = stop_polling s1
                        in if \<not> has_result (data_analysis dat) then Awaiting s2
                           else Returned (s2\<lparr> loading := False \<rparr>))
                     else Returned s1)))"

text \<open>The callback with its \<^verbatim>\<open>catch\<close> block.\<close>

definition poll_tick :: "response \<Rightarrow> page_state \<Rightarrow> completion" where
  "poll_tick r s =
     (case poll_try r s of
        Threw e s' \<Rightarrow> Returned (stop_polling (s'\<lparr> error := ''Polling failed'', loading := False \<rparr>))
      | c \<Rightarrow> c)"

text \<open>
  The rest of the callback once the final workspace fetch has settled with \<open>r\<close>: the inner
  \<^verbatim>\<open>try\<close>/\<^verbatim>\<open>catch\<close>, then \<^verbatim>\<open>setLoading(false)\<close>.
\<close>

definition poll_final :: "response \<Rightarrow> page_state \<Rightarrow> page_state" where
  "poll_final r s =
     (let s1 = (case r of
                  Rejected \<Rightarrow> s
                | Response ok d \<Rightarrow>
                    if ok then (case d of None \<Rightarrow> s | Some dat \<Rightarrow> s\<lparr> workspace := data_workspace dat \<rparr>)
                    else s)
      in s1\<lparr> loading := False \<rparr>)"

definition state_of :: "completion \<Rightarrow> page_state" where
  "state_of c = (case c of Threw e s \<Rightarrow> s | Returned s \<Rightarrow> s | Awaiting s \<Rightarrow> s)"

section \<open>fetchWorkspace\<close>

text \<open>\<^verbatim>\<open>setLoading(true)\<close>, before the \<^verbatim>\<open>await\<close>s.\<close>

definition fetchWorkspace_begin :: "page_state \<Rightarrow> page_state" where
  "fetchWorkspace_begin s = s\<lparr> loading := True \<rparr>"

text \<open>
  \<^verbatim>\<open>!data.workspace.analysis || (data.workspace.analysis && !data.workspace.analysis.hasResult)\<close>
\<close>

definition needs_polling :: "WorkspaceData \<Rightarrow> bool" where
  "needs_polling w =
     (case analysis w of None \<Rightarrow> True | Some a \<Rightarrow> \<not> truthy_bool (hasResult a))"

text \<open>
  The \<^verbatim>\<open>try\<close> block after the \<^verbatim>\<open>await\<close>s have settled with \<open>r\<close>: the state it leaves and
  the error it throws, if any.
\<close>

definition fetchWorkspace_try :: "response \<Rightarrow> page_state \<Rightarrow> js_error option \<times> page_state" where
  "fetchWorkspace_try r s =
     (case r of
        Rejected \<Rightarrow> (Some FetchError, s)
      | Response ok d \<Rightarrow>
          if \<not> ok then (None, s\<lparr> error := or_str (chain d data_error) ''Failed to load workspace'' \<rparr>)
          else
            (case d of
               None \<Rightarrow> (Some TypeError, s)
             | Some dat \<Rightarrow>
                 (let s1 = s\<lparr> workspace := data_workspace dat \<rparr>
                  in case data_workspace dat of
                       None \<Rightarrow> (Some TypeError, s1)
                     | Some w \<Rightarrow> (None, if needs_polling w then pollStatus s1 else s1))))"

text \<open>With \<^verbatim>\<open>catch\<close> and \<^verbatim>\<open>finally\<close>.\<close>

definition fetchWorkspace_end :: "response \<Rightarrow> page_state \<Rightarrow> page_state" where
  "fetchWorkspace_end r s =
     (case fetchWorkspace_try r s of
        (Some e, s') \<Rightarrow> s'\<lparr> error := ''Failed to load workspace'', loading := False \<rparr>
      | (None, s') \<Rightarrow> s'\<lparr> loading := False \<rparr>)"

text \<open>The cleanup of the last \<^verbatim>\<open>useEffect\<close>, run on unmount.\<close>

definition unmount :: "page_state \<Rightarrow> page_state" where
  "unmount s = stop_polling s"

section \<open>Runs of the component\<close>

text \<open>
  JavaScript runs each callback to its next \<^verbatim>\<open>await\<close> without interruption, so a run of
  the component is a sequence of these events, from \<open>initial\<close>. An interval callback that
  was started before its interval was cleared may still settle afterwards, so \<open>Tick\<close> and
  \<open>TickFinal\<close> are possible in every state.
\<close>

datatype event =
    FetchBegin
  | FetchEnd response
  | Tick response
  | TickFinal response
  | Select contributor
  | Close
  | Unmount

fun step :: "page_state \<Rightarrow> event \<Rightarrow> page_state" where
  "step s FetchBegin = fetchWorkspace_begin s"
| "step s (FetchEnd r) = fetchWorkspace_end r s"
| "step s (Tick r) = state_of (poll_tick r s)"
| "step s (TickFinal r) = poll_final r s"
| "step s (Select c) = s\<lparr> selectedContributor := Some c \<rparr>"
| "step s Close = s\<lparr> selectedContributor := None \<rparr>"
| "step s Unmount = unmount s"

definition run :: "nat \<Rightarrow> event list \<Rightarrow> page_state" where
  "run h evs = foldl step (initial h) evs"

section \<open>What the page renders\<close>

text \<open>
  The view is the content of the JSX the component returns, without markup and styling
  (the \<^verbatim>\<open>className\<close> choices are left out). Dates are kept as the strings the page hands
  to \<^verbatim>\<open>new Date(...).toLocaleDateString()\<close>, and \<^verbatim>\<open>toFixed(1)\<close> is not applied. The session
  of the header is not part of the model.
\<close>

datatype cell = Number int | Text string

record status_card =
  badge :: string
  progress_bar :: "int option"
  status_message :: "string option"

record contributor_card =
  card_username :: "string option"
  card_email :: "string option"
  card_commits :: "int option"
  card_files :: int
  card_expertise :: string
  card_risk :: "string option"

record result_view =
  stat_total_files :: int
  stat_total_commits :: int
  stat_contributors :: int
  stat_bus_factor :: cell
  overview :: "string option"
  languages :: "string list option"
  cards :: "contributor_card list option"
  health_card :: "string list option option"
  recommendation_list :: "string list option"

text \<open>
  \<open>InProgress\<close> is the box "Analysis is in progress. Results will appear here shortly."
\<close>

datatype result_section = Results result_view | InProgress

record workspace_view =
  repository :: string
  status_view :: "status_card option"
  section_view :: result_section

datatype main_view = NoWorkspace | Workspace workspace_view

record file_row =
  row_path :: "string option"
  row_lines :: int
  row_ownership :: int
  row_last_modified :: "string option"

record timeline_view =
  first_commit :: "string option"
  last_commit :: "string option"
  frequency :: "string option"

record modal_view =
  modal_username :: "string option"
  modal_email :: "string option"
  modal_commits :: "int option"
  modal_lines_added :: int
  modal_lines_deleted :: int
  modal_active_days :: int
  modal_expertise :: string
  modal_risk :: string
  modal_timeline :: "timeline_view option"
  modal_areas :: "string list option"
  modal_summary :: "string option"
  modal_files :: "(file_row list \<times> int option) option"

text \<open>
  \<open>Spinner\<close> is the "Loading workspace..." screen; a \<open>Page\<close> has the title
  \<^verbatim>\<open>workspace?.name\<close>, the error banner, the main part and the contributor modal.
\<close>

datatype view = Spinner | Page "string option" "string option" main_view "modal_view option"

subsection \<open>Strings\<close>

text \<open>\<^verbatim>\<open>toUpperCase\<close>, on ASCII letters; \<^verbatim>\<open>s.charAt(0).toUpperCase() + s.slice(1)\<close>.\<close>

definition upper_char :: "char \<Rightarrow> char" where
  "upper_char c =
     (if 97 \<le> (of_char c :: nat) \<and> (of_char c :: nat) \<le> 122 then char_of ((of_char c :: nat) - 32) else c)"

definition toUpperCase :: "string \<Rightarrow> string" where
  "toUpperCase s = map upper_char s"

definition capitalize :: "string \<Rightarrow> string" where
  "capitalize s = toUpperCase (take 1 s) @ drop 1 s"

text \<open>The em dash of the bus factor cell, in UTF-8.\<close>

definition dash :: string where
  "dash = [char_of (226::nat), char_of (128::nat), char_of (148::nat)]"

subsection \<open>The result section\<close>

text \<open>\<^verbatim>\<open>xs && xs.length > 0 && (... xs.slice(0, n) ...)\<close>: each \<^verbatim>\<open>xs.\<close> reads \<open>xs\<close> again.\<close>

definition nonempty_slice :: "nat \<Rightarrow> 'a list option \<Rightarrow> js_error + 'a list option" where
  "nonempty_slice n xs =
     (if xs \<noteq> None then
        bind_js (deref xs) (\<lambda>l.
          if length l > 0 then bind_js (deref xs) (\<lambda>l'. Inr (Some (take n l')))
          else Inr None)
      else Inr None)"

text \<open>\<^verbatim>\<open>xs && xs.length > 0 && (... xs.map(...) ...)\<close>\<close>

definition nonempty_all :: "'a list option \<Rightarrow> js_error + 'a list option" where
  "nonempty_all xs =
     (if xs \<noteq> None then
        bind_js (deref xs) (\<lambda>l.
          if length l > 0 then bind_js (deref xs) (\<lambda>l'. Inr (Some l'))
          else Inr None)
      else Inr None)"

definition render_card :: "contributor \<Rightarrow> contributor_card" where
  "render_card c =
     \<lparr> card_username = username c,
       card_email = email c,
       card_commits = total_commits c,
       card_files = or_num (chain (files_contributed c) (\<lambda>fs. Some (int (length fs)))) 0,
       card_expertise = or_str (expertise_level c) ''unknown'',
       card_risk = (if truthy_str (bus_factor_risk c) then bus_factor_risk c else None) \<rparr>"

text \<open>
  \<^verbatim>\<open>result.codebase_health && (...)\<close>: the card, and in it the first five hot spots when
  there are any.
\<close>

definition render_health :: "analysis_result \<Rightarrow> js_error + string list option option" where
  "render_health r =
     (if health r \<noteq> None then
        bind_js (deref (health r)) (\<lambda>h.
          bind_js (nonempty_slice 5 (hot_spots h)) (\<lambda>spots. Inr (Some spots)))
      else Inr None)"

definition render_result :: "analysis_result \<Rightarrow> js_error + result_view" where
  "render_result r =
     bind_js (nonempty_all (primary_languages r)) (\<lambda>langs.
     bind_js (nonempty_all (contributors r)) (\<lambda>cs.
     bind_js (render_health r) (\<lambda>hc.
     bind_js (nonempty_slice 5 (recommendations r)) (\<lambda>recs.
       Inr \<lparr> stat_total_files = or_num (chain (health r) total_files) 0,
             stat_total_commits = or_num (chain (health r) health_total_commits) 0,
             stat_contributors = or_num (chain (health r) active_contributors) 0,
             stat_bus_factor =
               (if truthy_num (chain (health r) bus_factor)
                then Number (or_num (chain (health r) bus_factor) 0) else Text dash),
             overview = (if truthy_str (project_summary r) then project_summary r else None),
             languages = langs,
             cards = map_option (map render_card) cs,
             health_card = hc,
             recommendation_list = recs \<rparr>))))"

subsection \<open>The contributor modal\<close>

definition render_file :: "contributed_file \<Rightarrow> file_row" where
  "render_file f =
     \<lparr> row_path = file_path f,
       row_lines = or_num (lines_contributed f) 0,
       row_ownership = or_num (ownership_percentage f) 0,
       row_last_modified = (if truthy_str (last_modified f) then last_modified f else None) \<rparr>"

text \<open>
  \<^verbatim>\<open>files_contributed && files_contributed.length > 0 && (...)\<close>: the first ten rows, and
  the number of the "+N more files" line when \<^verbatim>\<open>files_contributed.length > 10\<close>.
\<close>

definition render_files :: "contributor \<Rightarrow> js_error + (file_row list \<times> int option) option" where
  "render_files c =
     bind_js (nonempty_slice 10 (files_contributed c)) (\<lambda>rows.
       case rows of
         None \<Rightarrow> Inr None
       | Some fs \<Rightarrow>
           bind_js (deref (files_contributed c)) (\<lambda>l.
             if length l > 10 then
               bind_js (deref (files_contributed c)) (\<lambda>l'. Inr (Some (map render_file fs, Some (int (length l') - 10))))
             else Inr (Some (map render_file fs, None))))"

definition render_timeline :: "contributor \<Rightarrow> timeline_view option" where
  "render_timeline c =
     (if truthy_str (first_commit_date c) \<or> truthy_str (last_commit_date c) then
        Some \<lparr> first_commit = (if truthy_str (first_commit_date c) then first_commit_date c else None),
               last_commit = (if truthy_str (last_commit_date c) then last_commit_date c else None),
               frequency = (if truthy_str (commit_frequency c) then commit_frequency c else None) \<rparr>
      else None)"

definition render_modal :: "contributor \<Rightarrow> js_error + modal_view" where
  "render_modal c =
     bind_js (nonempty_all (knowledge_areas c)) (\<lambda>ar.
     bind_js (render_files c) (\<lambda>fl.
       Inr \<lparr> modal_username = username c,
             modal_email = email c,
             modal_commits = total_commits c,
             modal_lines_added = or_num (lines_added c) 0,
             modal_lines_deleted = or_num (lines_deleted c) 0,
             modal_active_days = or_num (active_days c) 0,
             modal_expertise = capitalize (or_str (expertise_level c) ''Unknown''),
             modal_risk = capitalize (or_str (bus_factor_risk c) ''Unknown''),
             modal_timeline = render_timeline c,
             modal_areas = ar,
             modal_summary = (if truthy_str (contribution_summary c) then contribution_summary c else None),
             modal_files = fl \<rparr>))"

subsection \<open>The page\<close>

definition render_status :: "analysis_data \<Rightarrow> status_card" where
  "render_status a =
     \<lparr> badge = toUpperCase (analysis_status a),
       progress_bar = progress a,
       status_message = (if truthy_str (message a) then message a else None) \<rparr>"

text \<open>\<^verbatim>\<open>const result = workspace?.analysis?.result\<close>\<close>

definition current_result :: "page_state \<Rightarrow> analysis_result option" where
  "current_result s = chain (chain (workspace s) analysis) result"

definition render_section :: "page_state \<Rightarrow> js_error + result_section" where
  "render_section s =
     (if current_result s \<noteq> None then
        bind_js (deref (current_result s)) (\<lambda>r.
          bind_js (render_result r) (\<lambda>v. Inr (Results v)))
      else Inr InProgress)"

definition render_main :: "page_state \<Rightarrow> js_error + main_view" where
  "render_main s =
     (if workspace s = None then Inr NoWorkspace
      else
        bind_js (deref (workspace s)) (\<lambda>w.
          bind_js (if analysis w \<noteq> None
                   then bind_js (deref (analysis w)) (\<lambda>a. Inr (Some (render_status a)))
                   else Inr None) (\<lambda>st.
            bind_js (render_section s) (\<lambda>sec.
              Inr (Workspace \<lparr> repository = github_repository w, status_view = st, section_view = sec \<rparr>)))))"

definition render :: "page_state \<Rightarrow> js_error + view" where
  "render s =
     (if loading s then Inr Spinner
      else
        bind_js (render_main s) (\<lambda>m.
          bind_js (if selectedContributor s \<noteq> None
                   then bind_js (deref (selectedContributor s)) (\<lambda>c.
                          bind_js (render_modal c) (\<lambda>v. Inr (Some v)))
                   else Inr None) (\<lambda>md.
            Inr (Page (chain (workspace s) (\<lambda>w. Some (name w)))
                      (if error s \<noteq> [] then Some (error s) else None) m md))))"

section \<open>The analysis engine behind the status endpoint\<close>

text \<open>
  The page only calls \<^verbatim>\<open>/api/workspaces/<id>\<close> and \<^verbatim>\<open>/api/workspaces/<id>/status\<close>; the
  engine that answers them is not among the sources. Every definition of this section is
  written from the specification, and says from which part.
\<close>

subsection \<open>Data\<close>

text \<open>Modelled from the spec: the \<open>status\<close> of an AnalysisJob (section 3); the engine is not among the sources.\<close>

datatype job_status = Queued | Processing | Completed | Failed

text \<open>Modelled from the spec: the values of \<open>current_step\<close> (section 4.6); the orchestrator is not among the sources.\<close>

datatype pipeline_step = Extracting | Aggregating | Profiling | AnalyzingRisk | Synthesizing

text \<open>
  Modelled from the spec: the error taxonomy (section 7), the \<open>NotFoundError\<close> of status
  polling (section 6) and the rejection of a submission (section 4.6); the engine is not
  among the sources.
\<close>

datatype engine_error =
  ExtractionError | EmptyHistoryError | AggregationError | ClassificationError | NotFoundError | Rejection

text \<open>Modelled from the spec: a per-file change of a CommitDiff (section 3); the extractor is not among the sources.\<close>

record file_change =
  change_path :: string
  change_added :: nat
  change_removed :: nat
  change_renamed_from :: "string option"

text \<open>
  Modelled from the spec: CommitDiff (section 3), with the mark of a merge commit
  (section 4.1); the extractor is not among the sources.
\<close>

record commit_diff =
  commit_id :: string
  commit_author :: string
  commit_time :: nat
  commit_is_merge :: bool
  commit_changes :: "file_change list"

text \<open>
  Modelled from the spec: the statistics and classifications of a ContributorProfile
  (section 3); the profiler is not among the sources.
\<close>

record contributor_profile =
  profile_username :: string
  profile_email :: string
  profile_total_commits :: nat
  profile_lines_added :: nat
  profile_lines_deleted :: nat
  profile_active_days :: nat
  profile_expertise_level :: string
  profile_bus_factor_risk :: string

text \<open>
  Modelled from the spec: CodebaseHealth (section 3); the risk analyzer is not among the
  sources. \<open>None\<close> is the undefined bus factor of section 8.
\<close>

record health_metrics =
  metric_total_files :: nat
  metric_total_commits :: nat
  metric_active_contributors :: nat
  metric_bus_factor :: "nat option"
  metric_hot_spots :: "string list"

text \<open>Modelled from the spec: AnalysisResult (section 3); the engine is not among the sources.\<close>

record engine_result =
  engine_project_summary :: string
  engine_primary_languages :: "string list"
  engine_contributors :: "contributor_profile list"
  engine_health :: health_metrics
  engine_recommendations :: "string list"

text \<open>
  Modelled from the spec: AnalysisJob (section 3); the orchestrator is not among the
  sources. Times are numbers.
\<close>

record job =
  job_id :: nat
  job_workspace :: nat
  job_state :: job_status
  job_progress :: nat
  job_step :: "pipeline_step option"
  job_message :: string
  job_startedAt :: "nat option"
  job_completedAt :: "nat option"
  job_result :: "engine_result option"

subsection \<open>The job state machine\<close>

text \<open>
  Modelled from the spec: the non-terminal states \<open>queued\<close> and \<open>processing\<close> (sections 3
  and 4.6); the orchestrator is not among the sources.
\<close>

definition non_terminal :: "job \<Rightarrow> bool" where
  "non_terminal j = (job_state j = Queued \<or> job_state j = Processing)"

text \<open>
  Modelled from the spec: the weights 20/20/20/25/15 by which the steps advance the
  progress (section 4.6); the orchestrator is not among the sources.
\<close>

fun step_weight :: "pipeline_step \<Rightarrow> nat" where
  "step_weight Extracting = 20"
| "step_weight Aggregating = 20"
| "step_weight Profiling = 20"
| "step_weight AnalyzingRisk = 25"
| "step_weight Synthesizing = 15"

text \<open>
  Modelled from the spec: the order of the steps, none skipped or reordered (section 4.6);
  the orchestrator is not among the sources.
\<close>

fun next_step :: "pipeline_step \<Rightarrow> pipeline_step option" where
  "next_step Extracting = Some Aggregating"
| "next_step Aggregating = Some Profiling"
| "next_step Profiling = Some AnalyzingRisk"
| "next_step AnalyzingRisk = Some Synthesizing"
| "next_step Synthesizing = None"

text \<open>
  Modelled from the spec: the category of an error, recorded in the \<open>message\<close> of a failed
  job (sections 4.6 and 7); the orchestrator is not among the sources.
\<close>

fun category :: "engine_error \<Rightarrow> string" where
  "category ExtractionError = ''ExtractionError''"
| "category EmptyHistoryError = ''EmptyHistoryError''"
| "category AggregationError = ''AggregationError''"
| "category ClassificationError = ''ClassificationError''"
| "category NotFoundError = ''NotFoundError''"
| "category Rejection = ''Rejection''"

text \<open>
  Modelled from the spec: a job as submission creates it, with initial status \<open>queued\<close>
  (section 6); job submission is not among the sources.
\<close>

definition new_job :: "nat \<Rightarrow> nat \<Rightarrow> job" where
  "new_job i ws =
     \<lparr> job_id = i, job_workspace = ws, job_state = Queued, job_progress = 0, job_step = None,
       job_message = [], job_startedAt = None, job_completedAt = None, job_result = None \<rparr>"

text \<open>
  Modelled from the spec: the transition \<open>queued \<rightarrow> processing\<close>, which begins with the
  step \<open>extracting\<close> (section 4.6); the orchestrator is not among the sources.
\<close>

definition start_job :: "nat \<Rightarrow> job \<Rightarrow> job" where
  "start_job t j =
     (if job_state j = Queued
      then j\<lparr> job_state := Processing, job_step := Some Extracting, job_startedAt := Some t \<rparr>
      else j)"

text \<open>
  Modelled from the spec: a step of a \<open>processing\<close> job adds its weight to the progress
  before the next step begins (section 4.6); the orchestrator is not among the sources.
\<close>

definition advance_job :: "job \<Rightarrow> job" where
  "advance_job j =
     (if job_state j = Processing then
        (case job_step j of
           None \<Rightarrow> j
         | Some st \<Rightarrow>
             (case next_step st of
                None \<Rightarrow> j
              | Some st' \<Rightarrow> j\<lparr> job_progress := job_progress j + step_weight st, job_step := Some st' \<rparr>))
      else j)"

text \<open>
  Modelled from the spec: the transition to \<open>completed\<close> attaches the result and
  \<open>completedAt\<close> (section 4.6); the orchestrator is not among the sources.
\<close>

definition complete_job :: "engine_result \<Rightarrow> nat \<Rightarrow> job \<Rightarrow> job" where
  "complete_job r t j =
     (if job_state j = Processing
      then j\<lparr> job_state := Completed, job_progress := 100, job_completedAt := Some t, job_result := Some r \<rparr>
      else j)"

text \<open>
  Modelled from the spec: the transition to \<open>failed\<close> records the error's category in
  \<open>message\<close> (sections 4.6 and 7); the orchestrator is not among the sources.
\<close>

definition fail_job :: "engine_error \<Rightarrow> job \<Rightarrow> job" where
  "fail_job e j =
     (if job_state j = Processing
      then j\<lparr> job_state := Failed, job_message := category e \<rparr>
      else j)"

subsection \<open>The job registry\<close>

text \<open>
  Modelled from the spec: the non-terminal jobs of a workspace in the job registry
  (sections 3 and 9); the registry is not among the sources.
\<close>

definition active_jobs :: "nat \<Rightarrow> job list \<Rightarrow> job list" where
  "active_jobs ws reg = filter (\<lambda>j. job_workspace j = ws \<and> non_terminal j) reg"

text \<open>
  Modelled from the spec: job submission (sections 4.6 and 6), which is not among the
  sources. A request for a workspace that has a non-terminal job is rejected; otherwise a
  \<open>queued\<close> job is added and its identifier returned.
\<close>

definition submit :: "nat \<Rightarrow> job list \<Rightarrow> engine_error + nat \<times> job list" where
  "submit ws reg =
     (if active_jobs ws reg \<noteq> [] then Inl Rejection
      else Inr (length reg, reg @ [new_job (length reg) ws]))"

text \<open>
  Modelled from the spec: a status-transition write to the job with a given identifier
  (section 5); the registry is not among the sources.
\<close>

definition update_job :: "nat \<Rightarrow> (job \<Rightarrow> job) \<Rightarrow> job list \<Rightarrow> job list" where
  "update_job i f reg = map (\<lambda>j. if job_id j = i then f j else j) reg"

text \<open>
  Modelled from the spec: what changes the registry, a submission for a workspace and the
  worker's writes to a job (sections 4.6 and 5); neither is among the sources.
\<close>

datatype request =
    Submit nat
  | Start nat nat
  | Advance nat
  | Complete nat engine_result nat
  | Fail nat engine_error

text \<open>
  Modelled from the spec: the registry after a request; a rejected submission leaves it
  as it was (section 4.6). The registry is not among the sources.
\<close>

fun serve :: "job list \<Rightarrow> request \<Rightarrow> job list" where
  "serve reg (Submit ws) = (case submit ws reg of Inl e \<Rightarrow> reg | Inr (i, reg') \<Rightarrow> reg')"
| "serve reg (Start i t) = update_job i (start_job t) reg"
| "serve reg (Advance i) = update_job i advance_job reg"
| "serve reg (Complete i r t) = update_job i (complete_job r t) reg"
| "serve reg (Fail i e) = update_job i (fail_job e) reg"

text \<open>
  Modelled from the spec: the registry of a process, empty at its start, after a sequence
  of requests (section 9); the registry is not among the sources.
\<close>

definition registry :: "request list \<Rightarrow> job list" where
  "registry rs = foldl serve [] rs"

subsection \<open>Status polling\<close>

text \<open>
  Modelled from the spec: the payload of status polling,
  \<open>{status, progress, message, current_step, startedAt, completedAt, result?}\<close> (section 6);
  the status endpoint is not among the sources.
\<close>

record status_payload =
  payload_status :: job_status
  payload_progress :: nat
  payload_message :: string
  payload_current_step :: "pipeline_step option"
  payload_startedAt :: "nat option"
  payload_completedAt :: "nat option"
  payload_result :: "engine_result option"

text \<open>
  Modelled from the spec: the payload of a job (section 6); the status endpoint is not
  among the sources.
\<close>

definition payload_of :: "job \<Rightarrow> status_payload" where
  "payload_of j =
     \<lparr> payload_status = job_state j, payload_progress = job_progress j,
       payload_message = job_message j, payload_current_step = job_step j,
       payload_startedAt = job_startedAt j, payload_completedAt = job_completedAt j,
       payload_result = job_result j \<rparr>"

text \<open>
  Modelled from the spec: status polling by job identifier, which fails with
  \<open>NotFoundError\<close> for an unknown identifier (section 6); the status endpoint is not among
  the sources.
\<close>

definition poll :: "nat \<Rightarrow> job list \<Rightarrow> engine_error + status_payload" where
  "poll i reg =
     (case find (\<lambda>j. job_id j = i) reg of
        None \<Rightarrow> Inl NotFoundError
      | Some j \<Rightarrow> Inr (payload_of j))"

subsection \<open>Running a job\<close>

text \<open>
  Modelled from the spec: what the History Extractor finds at a repository location
  (section 4.1); the extractor is not among the sources.
\<close>

datatype repository = Unreachable | Unauthorized | History "commit_diff list"

text \<open>
  Modelled from the spec: the History Extractor's failures (section 4.1); the extractor is
  not among the sources. An unreachable or unauthorized repository is an
  \<open>ExtractionError\<close>, an empty history an \<open>EmptyHistoryError\<close>; merge commits contribute
  no changes.
\<close>

definition extract_history :: "repository \<Rightarrow> engine_error + commit_diff list" where
  "extract_history repo =
     (case repo of
        Unreachable \<Rightarrow> Inl ExtractionError
      | Unauthorized \<Rightarrow> Inl ExtractionError
      | History cs \<Rightarrow>
          if cs = [] then Inl EmptyHistoryError
          else Inr (filter (\<lambda>c. \<not> commit_is_merge c) cs))"

text \<open>
  Modelled from the spec: the zero-valued result of an empty history (sections 4.1, 7 and
  8); the orchestrator is not among the sources.
\<close>

definition zero_result :: engine_result where
  "zero_result =
     \<lparr> engine_project_summary = [], engine_primary_languages = [], engine_contributors = [],
       engine_health = \<lparr> metric_total_files = 0, metric_total_commits = 0,
                         metric_active_contributors = 0, metric_bus_factor = None,
                         metric_hot_spots = [] \<rparr>,
       engine_recommendations = [] \<rparr>"

text \<open>
  Modelled from the spec: the worker on a job in state \<open>processing\<close> (sections 4.1, 4.6
  and 7); the orchestrator is not among the sources. The stages after extraction
  (aggregation, profiling, risk analysis, synthesis) are the parameter \<open>stages\<close>. An empty
  history short-circuits to a completed job with \<open>zero_result\<close>; every other error fails
  the job.
\<close>

definition execute ::
  "(commit_diff list \<Rightarrow> engine_error + engine_result) \<Rightarrow> repository \<Rightarrow> nat \<Rightarrow> job \<Rightarrow> job" where
  "execute stages repo t j =
     (case extract_history repo of
        Inl e \<Rightarrow> if e = EmptyHistoryError then complete_job zero_result t j else fail_job e j
      | Inr diffs \<Rightarrow>
          (case stages diffs of
             Inl e \<Rightarrow> fail_job e j
           | Inr r \<Rightarrow> complete_job r t j))"

section \<open>Predicates on states and registries\<close>

text \<open>
  The ref and the registered intervals agree: either the ref is \<^verbatim>\<open>null\<close> and no interval
  is registered, or the ref holds a handle other than 0 and the one registered interval is
  the one with that handle, with a delay of 2000 ms.
\<close>

definition single_interval :: "page_state \<Rightarrow> bool" where
  "single_interval s =
     (pollingRef s \<noteq> Some 0 \<and>
      intervals s = (case pollingRef s of None \<Rightarrow> [] | Some h \<Rightarrow> [(h, 2000)]))"

text \<open>No interval is registered and the ref is \<^verbatim>\<open>null\<close>.\<close>

definition stopped :: "page_state \<Rightarrow> bool" where
  "stopped s = (pollingRef s = None \<and> intervals s = [])"

text \<open>Every job of a registry that carries a result is \<open>completed\<close>.\<close>

definition results_completed :: "job list \<Rightarrow> bool" where
  "results_completed reg = list_all (\<lambda>j. job_result j \<noteq> None \<longrightarrow> job_state j = Completed) reg"

section \<open>Sample data\<close>

text \<open>Values for the concrete runs below.\<close>

definition demo_analysis :: "string \<Rightarrow> bool option \<Rightarrow> analysis_result option \<Rightarrow> analysis_data" where
  "demo_analysis st hr r =
     \<lparr> analysis_id = ''a1'', analysis_status = st, progress = None, message = None,
       current_step = None, startedAt = None, completedAt = None, hasResult = hr, result = r \<rparr>"

definition demo_workspace :: "analysis_data option \<Rightarrow> WorkspaceData" where
  "demo_workspace a =
     \<lparr> workspace_id = ''w1'', name = ''demo'', github_repository = ''https://example.org/repo'',
       createdAt = ''2024-01-01'', analysis = a \<rparr>"

definition workspace_response :: "WorkspaceData \<Rightarrow> response" where
  "workspace_response w =
     Response True (Some \<lparr> data_error = None, data_status = None, data_analysis = None,
                           data_workspace = Some w \<rparr>)"

definition status_data :: "string \<Rightarrow> analysis_data option \<Rightarrow> response_data" where
  "status_data st a =
     \<lparr> data_error = None, data_status = Some st, data_analysis = a, data_workspace = None \<rparr>"

text \<open>
  The page after it has loaded a workspace without analysis: \<^verbatim>\<open>fetchWorkspace\<close> has called
  \<^verbatim>\<open>pollStatus\<close>.
\<close>

definition demo_polling :: page_state where
  "demo_polling = run 0 [FetchBegin, FetchEnd (workspace_response (demo_workspace None))]"

text \<open>The status of a failed job: no result, the failure in \<^verbatim>\<open>message\<close>.\<close>

definition demo_failed :: response_data where
  "demo_failed =
     status_data ''failed''
       (Some ((demo_analysis ''failed'' None None)\<lparr> message := Some ''ExtractionError: repository unreachable'' \<rparr>))"

text \<open>A result and a contributor with every field missing.\<close>

definition empty_result :: analysis_result where
  "empty_result =
     \<lparr> project_summary = None, primary_languages = None, contributors = None, health = None,
       recommendations = None \<rparr>"

definition empty_contributor :: contributor where
  "empty_contributor =
     \<lparr> username = None, email = None, total_commits = None, lines_added = None,
       lines_deleted = None, active_days = None, expertise_level = None, bus_factor_risk = None,
       first_commit_date = None, last_commit_date = None, commit_frequency = None,
       knowledge_areas = None, contribution_summary = None, files_contributed = None \<rparr>"

definition demo_file :: "string \<Rightarrow> contributed_file" where
  "demo_file p =
     \<lparr> file_path = Some p, lines_contributed = None, ownership_percentage = None,
       last_modified = None \<rparr>"

text \<open>A result with seven hot spots and six recommendations; a contributor with twelve files.\<close>

definition long_result :: analysis_result where
  "long_result =
     empty_result
       \<lparr> health := Some \<lparr> total_files = Some 7, health_total_commits = None,
                          active_contributors = None, bus_factor = None,
                          hot_spots = Some [''a'', ''b'', ''c'', ''d'', ''e'', ''f'', ''g''] \<rparr>,
         recommendations := Some [''r1'', ''r2'', ''r3'', ''r4'', ''r5'', ''r6''] \<rparr>"

definition long_contributor :: contributor where
  "long_contributor =
     empty_contributor
       \<lparr> files_contributed :=
           Some (map demo_file [''api.py'', ''app.tsx'', ''auth.ts'', ''db.py'', ''index.tsx'', ''jobs.py'', ''main.py'',
                  ''page.tsx'', ''poll.ts'', ''risk.py'', ''types.ts'', ''utils.ts'']) \<rparr>"

text \<open>
  A stored analysis that is flagged \<^verbatim>\<open>hasResult\<close> but carries no \<^verbatim>\<open>result\<close>, and the page
  after it has loaded a workspace with it.
\<close>

definition demo_flagged :: WorkspaceData where
  "demo_flagged = demo_workspace (Some (demo_analysis ''processing'' (Some True) None))"

definition demo_flagged_page :: page_state where
  "demo_flagged_page = run 0 [FetchBegin, FetchEnd (workspace_response demo_flagged)]"

text \<open>The polling page after one status response of the failed job.\<close>

definition demo_failed_page :: page_state where
  "demo_failed_page = step demo_polling (Tick (Response True (Some demo_failed)))"

text \<open>
  A result of the sample data, a status response that carries it while the status is still
  \<^verbatim>\<open>processing\<close>, and a workspace whose stored analysis is \<^verbatim>\<open>completed\<close> without the flag.
\<close>

definition demo_early :: response_data where
  "demo_early = status_data ''processing'' (Some (demo_analysis ''processing'' None (Some long_result)))"

definition demo_unflagged :: WorkspaceData where
  "demo_unflagged = demo_workspace (Some (demo_analysis ''completed'' None None))"

text \<open>A registry with one job that has been started and completed with \<open>zero_result\<close>.\<close>

definition demo_requests :: "request list" where
  "demo_requests = [Submit 7, Start 0 100, Advance 0, Complete 0 zero_result 160]"

text \<open>A job in state \<open>processing\<close>.\<close>

definition demo_job :: job where
  "demo_job = start_job 100 (new_job 0 7)"

section \<open>The polling interval\<close>

subsection \<open>One interval at most\<close>

lemma single_interval_initial: "single_interval (initial h)"
  by (simp add: single_interval_def initial_def)

lemma single_interval_stop:
  "single_interval s \<Longrightarrow> pollingRef (stop_polling s) = None \<and> intervals (stop_polling s) = []"
  by (auto simp: single_interval_def stop_polling_def clearInterval_def split: option.splits)

lemma stop_polling_fields [simp]:
  "workspace (stop_polling s) = workspace s"
  "loading (stop_polling s) = loading s"
  "error (stop_polling s) = error s"
  "selectedContributor (stop_polling s) = selectedContributor s"
  "last_handle (stop_polling s) = last_handle s"
  by (simp_all add: stop_polling_def clearInterval_def split: option.splits)

lemma single_interval_cong:
  "pollingRef s' = pollingRef s \<Longrightarrow> intervals s' = intervals s \<Longrightarrow> single_interval s' = single_interval s"
  by (simp add: single_interval_def)

lemma single_interval_stopped: "single_interval s \<Longrightarrow> single_interval (stop_polling s)"
  using single_interval_stop [of s] by (simp add: single_interval_def)

lemma single_interval_pollStatus: "single_interval s \<Longrightarrow> single_interval (pollStatus s)"
  by (auto simp: single_interval_def pollStatus_def polling_def setInterval_def Let_def split: option.splits)

lemma set_analysis_fields [simp]:
  "pollingRef (set_analysis a s) = pollingRef s"
  "intervals (set_analysis a s) = intervals s"
  "loading (set_analysis a s) = loading s"
  "error (set_analysis a s) = error s"
  by (simp_all add: set_analysis_def)

lemma single_interval_tick: "single_interval s \<Longrightarrow> single_interval (state_of (poll_tick r s))"
  by (auto simp: poll_tick_def poll_try_def state_of_def Let_def single_interval_def stop_polling_def clearInterval_def
      split: response.splits option.splits)

lemma single_interval_final: "single_interval s \<Longrightarrow> single_interval (poll_final r s)"
  by (auto simp: poll_final_def Let_def single_interval_def split: response.splits option.splits)

lemma single_interval_fetch: "single_interval s \<Longrightarrow> single_interval (fetchWorkspace_end r s)"
  by (auto simp: fetchWorkspace_end_def fetchWorkspace_try_def Let_def single_interval_def
      pollStatus_def polling_def setInterval_def
      split: response.splits option.splits)

lemma single_interval_step: "single_interval s \<Longrightarrow> single_interval (step s e)"
  by (cases e)
    (simp_all add: single_interval_tick single_interval_final single_interval_fetch
      unmount_def single_interval_stopped, simp_all add: single_interval_def fetchWorkspace_begin_def)

lemma single_interval_foldl: "single_interval s \<Longrightarrow> single_interval (foldl step s evs)"
  by (induction evs arbitrary: s) (simp_all add: single_interval_step)

lemma single_interval_run: "single_interval (run h evs)"
  by (simp add: run_def single_interval_foldl single_interval_initial)

subsection \<open>The interval callback on each kind of response\<close>

lemma stopped_stop_polling: "single_interval s \<Longrightarrow> stopped (stop_polling s)"
  using single_interval_stop [of s] by (simp add: stopped_def)

lemma stop_polling_single:
  "single_interval s \<Longrightarrow> stop_polling s = s\<lparr> pollingRef := None, intervals := [] \<rparr>"
  by (auto simp: single_interval_def stop_polling_def clearInterval_def split: option.splits)

lemma tick_not_ok:
  "single_interval s \<Longrightarrow>
   poll_tick (Response False d) s =
     Returned (s\<lparr> error := or_str (chain d data_error) ''Failed to fetch status'',
                  pollingRef := None, intervals := [], loading := False \<rparr>)"
  by (simp add: poll_tick_def poll_try_def stop_polling_single single_interval_def)

lemma tick_threw:
  "single_interval s \<Longrightarrow> poll_try r s = Threw e s0 \<Longrightarrow>
   s0 = s \<and> poll_tick r s =
     Returned (s\<lparr> error := ''Polling failed'', loading := False, pollingRef := None, intervals := [] \<rparr>)"
  by (auto simp: poll_tick_def poll_try_def stop_polling_single single_interval_def Let_def
      split: response.splits option.splits if_splits)

lemma tick_stop:
  "single_interval s \<Longrightarrow> data_status dat = Some ''completed'' \<or> has_result (data_analysis dat) \<Longrightarrow>
   poll_tick (Response True (Some dat)) s =
     (let s1 = (case data_analysis dat of None \<Rightarrow> s | Some a \<Rightarrow> set_analysis a s);
          s2 = s1\<lparr> pollingRef := None, intervals := [] \<rparr>
      in if has_result (data_analysis dat) then Returned (s2\<lparr> loading := False \<rparr>) else Awaiting s2)"
  by (auto simp: poll_tick_def poll_try_def stop_polling_single single_interval_def Let_def
      split: option.splits)

lemma tick_continue:
  "data_status dat \<noteq> Some ''completed'' \<Longrightarrow> \<not> has_result (data_analysis dat) \<Longrightarrow>
   poll_tick (Response True (Some dat)) s =
     Returned (case data_analysis dat of None \<Rightarrow> s | Some a \<Rightarrow> set_analysis a s)"
  by (simp add: poll_tick_def poll_try_def Let_def)

text \<open>
  C8. In every state the component reaches, at most one interval is registered, and the
  ref is non-null exactly when one is. \<^verbatim>\<open>pollStatus\<close> while polling changes nothing; when not
  polling it registers one interval. Every path that ends polling leaves no interval
  registered and the ref \<^verbatim>\<open>null\<close>: a rejected fetch, a non-ok response, a \<^verbatim>\<open>null\<close> body
  (a thrown TypeError), a response with status \<^verbatim>\<open>completed\<close> or with a result, and unmount.
\<close>

theorem single_polling_interval:
  assumes "s = run h evs"
  shows "length (intervals s) \<le> 1 \<and>
         (pollingRef s \<noteq> None \<longleftrightarrow> intervals s \<noteq> []) \<and>
         (polling s \<longrightarrow> pollStatus s = s) \<and>
         (\<not> polling s \<longrightarrow> polling (pollStatus s) \<and> length (intervals (pollStatus s)) = 1) \<and>
         stopped (state_of (poll_tick Rejected s)) \<and>
         stopped (state_of (poll_tick (Response False d) s)) \<and>
         stopped (state_of (poll_tick (Response True None) s)) \<and>
         (data_status dat = Some ''completed'' \<or> has_result (data_analysis dat) \<longrightarrow>
            stopped (state_of (poll_tick (Response True (Some dat)) s))) \<and>
         stopped (unmount s)"
proof -
  have inv: "single_interval s"
    using assms by (simp add: single_interval_run)
  have a: "length (intervals s) \<le> 1" and b: "pollingRef s \<noteq> None \<longleftrightarrow> intervals s \<noteq> []"
    using inv by (auto simp: single_interval_def split: option.splits)
  have c: "polling s \<longrightarrow> pollStatus s = s"
    by (simp add: pollStatus_def)
  have d: "\<not> polling s \<longrightarrow> polling (pollStatus s) \<and> length (intervals (pollStatus s)) = 1"
    using inv by (auto simp: pollStatus_def polling_def setInterval_def single_interval_def split: option.splits)
  have e: "stopped (state_of (poll_tick Rejected s))"
    using tick_threw [OF inv, of Rejected FetchError s]
    by (simp add: poll_try_def state_of_def stopped_def)
  have f: "stopped (state_of (poll_tick (Response False d) s))"
    by (simp add: tick_not_ok [OF inv] state_of_def stopped_def)
  have g: "stopped (state_of (poll_tick (Response True None) s))"
    using tick_threw [OF inv, of "Response True None" TypeError s]
    by (simp add: poll_try_def state_of_def stopped_def)
  have h: "data_status dat = Some ''completed'' \<or> has_result (data_analysis dat) \<longrightarrow>
            stopped (state_of (poll_tick (Response True (Some dat)) s))"
    by (auto simp: tick_stop [OF inv] state_of_def stopped_def Let_def split: option.splits)
  have i: "stopped (unmount s)"
    by (simp add: unmount_def stopped_stop_polling [OF inv])
  from a b c d e f g h i show ?thesis by blast
qed

lemmas page_defs = run_def initial_def fetchWorkspace_begin_def fetchWorkspace_end_def
  fetchWorkspace_try_def needs_polling_def pollStatus_def polling_def setInterval_def
  clearInterval_def stop_polling_def poll_tick_def poll_try_def poll_final_def state_of_def
  set_analysis_def has_result_def unmount_def or_str_def chain_def truthy_bool_def
  demo_analysis_def demo_workspace_def workspace_response_def status_data_def

lemma demo_polling_state:
  "demo_polling =
     \<lparr> workspace = Some (demo_workspace None), loading = False, error = [],
       selectedContributor = None, pollingRef = Some 1, intervals = [(1, 2000)], last_handle = 1 \<rparr>"
  by (simp add: demo_polling_def page_defs)

text \<open>C8 on the page that has loaded a workspace without analysis.\<close>

theorem single_polling_interval_witness:
  "demo_polling = run 0 [FetchBegin, FetchEnd (workspace_response (demo_workspace None))] \<and>
   polling demo_polling \<and> pollStatus demo_polling = demo_polling \<and>
   intervals demo_polling = [(1, 2000)] \<and>
   stopped (state_of (poll_tick (Response True (Some (status_data ''completed'' None))) demo_polling)) \<and>
   stopped (unmount demo_polling)"
  using single_polling_interval [where s = demo_polling and h = 0
      and evs = "[FetchBegin, FetchEnd (workspace_response (demo_workspace None))]"
      and dat = "status_data ''completed'' None"]
  by (simp add: demo_polling_def [symmetric]) (simp add: demo_polling_state polling_def status_data_def)

text \<open>
  C9. In every state the component reaches, a non-ok status response ends polling, sets
  the error to the response's \<^verbatim>\<open>error\<close> when that is a non-empty string and to
  "Failed to fetch status" otherwise, and leaves the workspace as it was. When the
  callback's \<^verbatim>\<open>try\<close> block throws (the fetch rejects, or the body is \<^verbatim>\<open>null\<close>), polling ends,
  the error is "Polling failed", and the workspace is as it was.
\<close>

theorem poll_failure_keeps_workspace:
  assumes "s = run h evs"
  shows "(let s' = state_of (poll_tick (Response False d) s)
          in stopped s' \<and> workspace s' = workspace s \<and>
             error s' = (case chain d data_error of
                           None \<Rightarrow> ''Failed to fetch status''
                         | Some m \<Rightarrow> if m \<noteq> [] then m else ''Failed to fetch status'')) \<and>
         (poll_try r s = Threw e s0 \<longrightarrow>
            (let s' = state_of (poll_tick r s)
             in stopped s' \<and> workspace s' = workspace s \<and> error s' = ''Polling failed'')) \<and>
         poll_try Rejected s = Threw FetchError s \<and>
         poll_try (Response True None) s = Threw TypeError s"
proof -
  have inv: "single_interval s"
    using assms by (simp add: single_interval_run)
  have a: "let s' = state_of (poll_tick (Response False d) s)
          in stopped s' \<and> workspace s' = workspace s \<and>
             error s' = (case chain d data_error of
                           None \<Rightarrow> ''Failed to fetch status''
                         | Some m \<Rightarrow> if m \<noteq> [] then m else ''Failed to fetch status'')"
    by (simp add: tick_not_ok [OF inv] state_of_def stopped_def or_str_def)
  have b: "poll_try r s = Threw e s0 \<longrightarrow>
            (let s' = state_of (poll_tick r s)
             in stopped s' \<and> workspace s' = workspace s \<and> error s' = ''Polling failed'')"
  proof
    assume t: "poll_try r s = Threw e s0"
    show "let s' = state_of (poll_tick r s)
          in stopped s' \<and> workspace s' = workspace s \<and> error s' = ''Polling failed''"
      using tick_threw [OF inv t] by (simp add: state_of_def stopped_def)
  qed
  have c: "poll_try Rejected s = Threw FetchError s" "poll_try (Response True None) s = Threw TypeError s"
    by (simp_all add: poll_try_def)
  from a b c show ?thesis by blast
qed

text \<open>C9 on the page that has loaded a workspace without analysis.\<close>

theorem poll_failure_keeps_workspace_witness:
  "demo_polling = run 0 [FetchBegin, FetchEnd (workspace_response (demo_workspace None))] \<and>
   poll_try Rejected demo_polling = Threw FetchError demo_polling \<and>
   stopped (state_of (poll_tick Rejected demo_polling)) \<and>
   workspace (state_of (poll_tick Rejected demo_polling)) = Some (demo_workspace None) \<and>
   error (state_of (poll_tick Rejected demo_polling)) = ''Polling failed'' \<and>
   stopped (state_of (poll_tick (Response False None) demo_polling)) \<and>
   workspace (state_of (poll_tick (Response False None) demo_polling)) = Some (demo_workspace None) \<and>
   error (state_of (poll_tick (Response False None) demo_polling)) = ''Failed to fetch status''"
  using poll_failure_keeps_workspace [where s = demo_polling and h = 0
      and evs = "[FetchBegin, FetchEnd (workspace_response (demo_workspace None))]"
      and d = None and r = Rejected and e = FetchError and ?s0.0 = demo_polling]
  by (simp add: demo_polling_def [symmetric] Let_def chain_def) (simp add: demo_polling_state)

subsection \<open>Responses that do not end polling\<close>

lemma tick_continue_fields:
  assumes "data_status dat \<noteq> Some ''completed''" and "\<not> has_result (data_analysis dat)"
  shows "pollingRef (state_of (poll_tick (Response True (Some dat)) s)) = pollingRef s"
    and "intervals (state_of (poll_tick (Response True (Some dat)) s)) = intervals s"
    and "error (state_of (poll_tick (Response True (Some dat)) s)) = error s"
    and "loading (state_of (poll_tick (Response True (Some dat)) s)) = loading s"
    and "last_handle (state_of (poll_tick (Response True (Some dat)) s)) = last_handle s"
    and "selectedContributor (state_of (poll_tick (Response True (Some dat)) s)) = selectedContributor s"
  using assms by (simp_all add: tick_continue state_of_def set_analysis_def split: option.splits)

lemma tick_continue_workspace:
  assumes "data_status dat \<noteq> Some ''completed''" and "\<not> has_result (data_analysis dat)"
  shows "workspace (state_of (poll_tick (Response True (Some dat)) s)) =
           (case data_analysis dat of
              None \<Rightarrow> workspace s
            | Some a \<Rightarrow> map_option (\<lambda>w. w\<lparr> analysis := Some a \<rparr>) (workspace s))"
  using assms by (simp add: tick_continue state_of_def set_analysis_def split: option.splits)

lemma tick_continue_result:
  assumes "data_status dat \<noteq> Some ''completed''" and "\<not> has_result (data_analysis dat)"
    and "current_result s = None"
  shows "current_result (state_of (poll_tick (Response True (Some dat)) s)) = None"
  using assms
  by (auto simp: tick_continue_workspace current_result_def chain_def has_result_def split: option.splits)

lemma ticks_continue:
  assumes "data_status dat \<noteq> Some ''completed''" and "\<not> has_result (data_analysis dat)"
  shows "pollingRef (foldl step s (replicate n (Tick (Response True (Some dat))))) = pollingRef s \<and>
         intervals (foldl step s (replicate n (Tick (Response True (Some dat))))) = intervals s \<and>
         error (foldl step s (replicate n (Tick (Response True (Some dat))))) = error s \<and>
         loading (foldl step s (replicate n (Tick (Response True (Some dat))))) = loading s \<and>
         (current_result s = None \<longrightarrow>
            current_result (foldl step s (replicate n (Tick (Response True (Some dat))))) = None) \<and>
         (workspace s = None) = (workspace (foldl step s (replicate n (Tick (Response True (Some dat))))) = None)"
proof (induction n arbitrary: s)
  case 0
  show ?case by simp
next
  case (Suc n)
  show ?case
    using Suc.IH [of "step s (Tick (Response True (Some dat)))"]
      tick_continue_fields [OF assms, of s] tick_continue_result [OF assms, of s]
      tick_continue_workspace [OF assms, of s]
    by (simp split: option.splits)
qed

section \<open>Rendering\<close>

subsection \<open>The guards never throw\<close>

lemma nonempty_slice_eq:
  "nonempty_slice n xs = Inr (case xs of None \<Rightarrow> None | Some l \<Rightarrow> if l = [] then None else Some (take n l))"
  by (cases xs) (simp_all add: nonempty_slice_def bind_js_def deref_def)

lemma nonempty_all_eq:
  "nonempty_all xs = Inr (case xs of None \<Rightarrow> None | Some l \<Rightarrow> if l = [] then None else Some l)"
  by (cases xs) (simp_all add: nonempty_all_def bind_js_def deref_def)

lemma render_health_eq:
  "render_health r =
     Inr (case health r of
            None \<Rightarrow> None
          | Some h \<Rightarrow> Some (case hot_spots h of None \<Rightarrow> None | Some l \<Rightarrow> if l = [] then None else Some (take 5 l)))"
  by (cases "health r") (simp_all add: render_health_def bind_js_def deref_def nonempty_slice_eq)

lemma render_result_eq:
  "render_result r =
     Inr \<lparr> stat_total_files = or_num (chain (health r) total_files) 0,
           stat_total_commits = or_num (chain (health r) health_total_commits) 0,
           stat_contributors = or_num (chain (health r) active_contributors) 0,
           stat_bus_factor =
             (if truthy_num (chain (health r) bus_factor)
              then Number (or_num (chain (health r) bus_factor) 0) else Text dash),
           overview = (if truthy_str (project_summary r) then project_summary r else None),
           languages = (case primary_languages r of None \<Rightarrow> None | Some l \<Rightarrow> if l = [] then None else Some l),
           cards = (case contributors r of None \<Rightarrow> None | Some l \<Rightarrow> if l = [] then None else Some (map render_card l)),
           health_card = (case health r of
                            None \<Rightarrow> None
                          | Some h \<Rightarrow> Some (case hot_spots h of None \<Rightarrow> None | Some l \<Rightarrow> if l = [] then None else Some (take 5 l))),
           recommendation_list = (case recommendations r of None \<Rightarrow> None | Some l \<Rightarrow> if l = [] then None else Some (take 5 l)) \<rparr>"
  by (simp add: render_result_def bind_js_def nonempty_all_eq nonempty_slice_eq render_health_eq
      split: option.splits)

lemma render_files_eq:
  "render_files c =
     Inr (case files_contributed c of
            None \<Rightarrow> None
          | Some l \<Rightarrow>
              if l = [] then None
              else Some (map render_file (take 10 l),
                         if length l > 10 then Some (int (length l) - 10) else None))"
  by (cases "files_contributed c")
    (simp_all add: render_files_def bind_js_def deref_def nonempty_slice_eq)

lemma render_modal_eq:
  "render_modal c =
     Inr \<lparr> modal_username = username c,
           modal_email = email c,
           modal_commits = total_commits c,
           modal_lines_added = or_num (lines_added c) 0,
           modal_lines_deleted = or_num (lines_deleted c) 0,
           modal_active_days = or_num (active_days c) 0,
           modal_expertise = capitalize (or_str (expertise_level c) ''Unknown''),
           modal_risk = capitalize (or_str (bus_factor_risk c) ''Unknown''),
           modal_timeline = render_timeline c,
           modal_areas = (case knowledge_areas c of None \<Rightarrow> None | Some l \<Rightarrow> if l = [] then None else Some l),
           modal_summary = (if truthy_str (contribution_summary c) then contribution_summary c else None),
           modal_files = (case files_contributed c of
                            None \<Rightarrow> None
                          | Some l \<Rightarrow>
                              if l = [] then None
                              else Some (map render_file (take 10 l),
                                         if length l > 10 then Some (int (length l) - 10) else None)) \<rparr>"
  by (simp add: render_modal_def bind_js_def nonempty_all_eq render_files_eq)

lemma render_section_eq:
  "render_section s =
     (case current_result s of
        None \<Rightarrow> Inr InProgress
      | Some r \<Rightarrow> (case render_result r of Inl e \<Rightarrow> Inl e | Inr v \<Rightarrow> Inr (Results v)))"
  by (cases "current_result s") (simp_all add: render_section_def bind_js_def deref_def)

lemma render_section_total: "\<exists>v. render_section s = Inr v"
  by (cases "current_result s") (simp_all add: render_section_eq render_result_eq)

lemma render_main_total: "\<exists>v. render_main s = Inr v"
proof (cases "workspace s")
  case None
  then show ?thesis by (simp add: render_main_def)
next
  case (Some w)
  obtain sec where "render_section s = Inr sec"
    using render_section_total by blast
  with Some show ?thesis
    by (cases "analysis w") (simp_all add: render_main_def bind_js_def deref_def)
qed

lemma render_total: "\<exists>v. render s = Inr v"
proof -
  obtain m where m: "render_main s = Inr m"
    using render_main_total by blast
  show ?thesis
    by (cases "selectedContributor s")
      (simp_all add: render_def m bind_js_def deref_def render_modal_eq)
qed

lemma capitalize_Unknown: "capitalize ''Unknown'' = ''Unknown''"
  by (simp add: capitalize_def toUpperCase_def upper_char_def)

text \<open>
  C7. Rendering never throws: the page renders in every state, and so do the result
  section and the contributor modal for every result and contributor, whichever fields are
  missing. A missing count shows 0, a missing bus factor the dash, a missing expertise
  level "unknown" on the card and "Unknown" in the modal; a missing risk is left out on
  the card and is "Unknown" in the modal; a missing list leaves its section out.
\<close>

theorem render_tolerates_missing_fields:
  "(\<exists>p. render s = Inr p) \<and>
   (\<exists>v. render_result r = Inr v \<and>
      (chain (health r) total_files = None \<longrightarrow> stat_total_files v = 0) \<and>
      (chain (health r) health_total_commits = None \<longrightarrow> stat_total_commits v = 0) \<and>
      (chain (health r) active_contributors = None \<longrightarrow> stat_contributors v = 0) \<and>
      (chain (health r) bus_factor = None \<longrightarrow> stat_bus_factor v = Text dash) \<and>
      (project_summary r = None \<longrightarrow> overview v = None) \<and>
      (primary_languages r = None \<longrightarrow> languages v = None) \<and>
      (contributors r = None \<longrightarrow> cards v = None) \<and>
      (health r = None \<longrightarrow> health_card v = None) \<and>
      (chain (health r) hot_spots = None \<longrightarrow> health_card v = None \<or> health_card v = Some None) \<and>
      (recommendations r = None \<longrightarrow> recommendation_list v = None)) \<and>
   (expertise_level c = None \<longrightarrow> card_expertise (render_card c) = ''unknown'') \<and>
   (bus_factor_risk c = None \<longrightarrow> card_risk (render_card c) = None) \<and>
   (files_contributed c = None \<longrightarrow> card_files (render_card c) = 0) \<and>
   (\<exists>m. render_modal c = Inr m \<and>
      (expertise_level c = None \<longrightarrow> modal_expertise m = ''Unknown'') \<and>
      (bus_factor_risk c = None \<longrightarrow> modal_risk m = ''Unknown'') \<and>
      (lines_added c = None \<longrightarrow> modal_lines_added m = 0) \<and>
      (lines_deleted c = None \<longrightarrow> modal_lines_deleted m = 0) \<and>
      (active_days c = None \<longrightarrow> modal_active_days m = 0) \<and>
      (knowledge_areas c = None \<longrightarrow> modal_areas m = None) \<and>
      (files_contributed c = None \<longrightarrow> modal_files m = None))"
proof -
  have page: "\<exists>p. render s = Inr p"
    by (rule render_total)
  have res: "\<exists>v. render_result r = Inr v \<and>
      (chain (health r) total_files = None \<longrightarrow> stat_total_files v = 0) \<and>
      (chain (health r) health_total_commits = None \<longrightarrow> stat_total_commits v = 0) \<and>
      (chain (health r) active_contributors = None \<longrightarrow> stat_contributors v = 0) \<and>
      (chain (health r) bus_factor = None \<longrightarrow> stat_bus_factor v = Text dash) \<and>
      (project_summary r = None \<longrightarrow> overview v = None) \<and>
      (primary_languages r = None \<longrightarrow> languages v = None) \<and>
      (contributors r = None \<longrightarrow> cards v = None) \<and>
      (health r = None \<longrightarrow> health_card v = None) \<and>
      (chain (health r) hot_spots = None \<longrightarrow> health_card v = None \<or> health_card v = Some None) \<and>
      (recommendations r = None \<longrightarrow> recommendation_list v = None)"
    by (simp add: render_result_eq or_num_def truthy_num_def truthy_str_def)
      (simp add: chain_def split: option.splits)
  have card: "(expertise_level c = None \<longrightarrow> card_expertise (render_card c) = ''unknown'') \<and>
   (bus_factor_risk c = None \<longrightarrow> card_risk (render_card c) = None) \<and>
   (files_contributed c = None \<longrightarrow> card_files (render_card c) = 0)"
    by (simp add: render_card_def or_str_def or_num_def chain_def truthy_str_def)
  have modal: "\<exists>m. render_modal c = Inr m \<and>
      (expertise_level c = None \<longrightarrow> modal_expertise m = ''Unknown'') \<and>
      (bus_factor_risk c = None \<longrightarrow> modal_risk m = ''Unknown'') \<and>
      (lines_added c = None \<longrightarrow> modal_lines_added m = 0) \<and>
      (lines_deleted c = None \<longrightarrow> modal_lines_deleted m = 0) \<and>
      (active_days c = None \<longrightarrow> modal_active_days m = 0) \<and>
      (knowledge_areas c = None \<longrightarrow> modal_areas m = None) \<and>
      (files_contributed c = None \<longrightarrow> modal_files m = None)"
    by (simp add: render_modal_eq or_str_def or_num_def capitalize_Unknown)
  from page res card modal show ?thesis by blast
qed

text \<open>C7 on the result and the contributor with every field missing.\<close>

theorem render_tolerates_missing_fields_witness:
  "(\<exists>v. render_result empty_result = Inr v \<and>
        stat_total_files v = 0 \<and> stat_total_commits v = 0 \<and> stat_contributors v = 0 \<and>
        stat_bus_factor v = Text dash \<and> languages v = None \<and> cards v = None \<and>
        health_card v = None \<and> recommendation_list v = None) \<and>
   card_expertise (render_card empty_contributor) = ''unknown'' \<and>
   card_risk (render_card empty_contributor) = None \<and>
   card_files (render_card empty_contributor) = 0 \<and>
   (\<exists>m. render_modal empty_contributor = Inr m \<and> modal_expertise m = ''Unknown'' \<and>
        modal_risk m = ''Unknown'' \<and> modal_lines_added m = 0 \<and> modal_files m = None)"
proof -
  have e: "health empty_result = None" "project_summary empty_result = None"
    "primary_languages empty_result = None" "contributors empty_result = None"
    "recommendations empty_result = None"
    by (simp_all add: empty_result_def)
  have c: "expertise_level empty_contributor = None" "bus_factor_risk empty_contributor = None"
    "files_contributed empty_contributor = None" "lines_added empty_contributor = None"
    "lines_deleted empty_contributor = None" "active_days empty_contributor = None"
    "knowledge_areas empty_contributor = None"
    by (simp_all add: empty_contributor_def)
  show ?thesis
    using render_tolerates_missing_fields [where r = empty_result and c = empty_contributor]
    by (simp add: e c chain_def) blast
qed

text \<open>
  C10. The page shows the first five hot spots and the first five recommendations, and
  the modal the first ten files with the number of the remaining files when there are more
  than ten; never more than five, five and ten entries, whatever the lengths of the lists.
\<close>

theorem display_truncation:
  "(\<exists>v. render_result r = Inr v \<and>
      (\<forall>h xs. health r = Some h \<longrightarrow> hot_spots h = Some xs \<longrightarrow> xs \<noteq> [] \<longrightarrow>
         health_card v = Some (Some (take 5 xs))) \<and>
      (\<forall>xs. recommendations r = Some xs \<longrightarrow> xs \<noteq> [] \<longrightarrow> recommendation_list v = Some (take 5 xs)) \<and>
      (\<forall>spots. health_card v = Some (Some spots) \<longrightarrow> length spots \<le> 5) \<and>
      (\<forall>recs. recommendation_list v = Some recs \<longrightarrow> length recs \<le> 5)) \<and>
   (\<exists>m. render_modal c = Inr m \<and>
      (\<forall>fs. files_contributed c = Some fs \<longrightarrow> fs \<noteq> [] \<longrightarrow>
         modal_files m = Some (map render_file (take 10 fs),
                               if 10 < length fs then Some (int (length fs) - 10) else None)) \<and>
      (\<forall>rows more. modal_files m = Some (rows, more) \<longrightarrow> length rows \<le> 10))"
proof -
  have res: "\<exists>v. render_result r = Inr v \<and>
      (\<forall>h xs. health r = Some h \<longrightarrow> hot_spots h = Some xs \<longrightarrow> xs \<noteq> [] \<longrightarrow>
         health_card v = Some (Some (take 5 xs))) \<and>
      (\<forall>xs. recommendations r = Some xs \<longrightarrow> xs \<noteq> [] \<longrightarrow> recommendation_list v = Some (take 5 xs)) \<and>
      (\<forall>spots. health_card v = Some (Some spots) \<longrightarrow> length spots \<le> 5) \<and>
      (\<forall>recs. recommendation_list v = Some recs \<longrightarrow> length recs \<le> 5)"
    by (auto simp: render_result_eq split: option.splits if_splits)
  have modal: "\<exists>m. render_modal c = Inr m \<and>
      (\<forall>fs. files_contributed c = Some fs \<longrightarrow> fs \<noteq> [] \<longrightarrow>
         modal_files m = Some (map render_file (take 10 fs),
                               if 10 < length fs then Some (int (length fs) - 10) else None)) \<and>
      (\<forall>rows more. modal_files m = Some (rows, more) \<longrightarrow> length rows \<le> 10)"
    by (auto simp: render_modal_eq split: option.splits if_splits)
  from res modal show ?thesis by blast
qed

text \<open>C10 on seven hot spots, six recommendations and twelve files.\<close>

theorem display_truncation_witness:
  "(\<exists>v. render_result long_result = Inr v \<and>
        health_card v = Some (Some [''a'', ''b'', ''c'', ''d'', ''e'']) \<and>
        recommendation_list v = Some [''r1'', ''r2'', ''r3'', ''r4'', ''r5'']) \<and>
   (\<exists>m. render_modal long_contributor = Inr m \<and>
        modal_files m =
          Some (map render_file (map demo_file [''api.py'', ''app.tsx'', ''auth.ts'', ''db.py'', ''index.tsx'', ''jobs.py'',
                  ''main.py'', ''page.tsx'', ''poll.ts'', ''risk.py'']),
                Some 2))"
  using display_truncation [where r = long_result and c = long_contributor]
  by (auto simp: long_result_def long_contributor_def empty_result_def empty_contributor_def)

section \<open>When polling starts and stops\<close>

lemma load_ok:
  "fetchWorkspace_end (Response True (Some dat)) s =
     (case data_workspace dat of
        None \<Rightarrow> s\<lparr> workspace := None, error := ''Failed to load workspace'', loading := False \<rparr>
      | Some w \<Rightarrow>
          if needs_polling w then (pollStatus (s\<lparr> workspace := Some w \<rparr>))\<lparr> loading := False \<rparr>
          else s\<lparr> workspace := Some w, loading := False \<rparr>)"
  by (simp add: fetchWorkspace_end_def fetchWorkspace_try_def Let_def split: option.splits)

lemma polling_pollStatus: "pollingRef s \<noteq> Some 0 \<Longrightarrow> polling (pollStatus s)"
  by (auto simp: pollStatus_def polling_def setInterval_def split: option.splits)

lemma pollStatus_workspace: "workspace (pollStatus s) = workspace s"
  by (simp add: pollStatus_def setInterval_def Let_def)

lemma needs_polling_iff:
  "needs_polling w \<longleftrightarrow> analysis w = None \<or> (\<exists>a. analysis w = Some a \<and> hasResult a \<noteq> Some True)"
  by (auto simp: needs_polling_def truthy_bool_def split: option.splits)

lemma demo_flagged_state:
  "demo_flagged_page =
     \<lparr> workspace = Some demo_flagged, loading = False, error = [], selectedContributor = None,
       pollingRef = None, intervals = [], last_handle = 0 \<rparr>"
  by (simp add: demo_flagged_page_def demo_flagged_def page_defs)

text \<open>
  C1, as amended. In every state the component reaches: an ok status response whose
  analysis carries a result ends polling and clears the loading flag, whatever its status,
  and when a workspace is loaded the result is stored and the result section is rendered.
  On load of a workspace, polling is started exactly when the workspace has no analysis or
  the analysis's \<^verbatim>\<open>hasResult\<close> flag is not \<^verbatim>\<open>true\<close>, whatever the status and whether or not
  \<^verbatim>\<open>result\<close> is there; otherwise the ref and the intervals stay as they were.
\<close>

theorem result_is_authoritative:
  assumes "s = run h evs"
  shows "(has_result (data_analysis dat) \<longrightarrow>
            (let s' = state_of (poll_tick (Response True (Some dat)) s)
             in poll_tick (Response True (Some dat)) s = Returned s' \<and> stopped s' \<and> \<not> loading s' \<and>
                (workspace s \<noteq> None \<longrightarrow>
                   current_result s' = chain (data_analysis dat) result \<and>
                   (\<exists>v. render_section s' = Inr (Results v))))) \<and>
         (data_workspace dat = Some w \<longrightarrow>
            (let s' = fetchWorkspace_end (Response True (Some dat)) s
             in workspace s' = Some w \<and> \<not> loading s' \<and>
                (analysis w = None \<or> (\<exists>a. analysis w = Some a \<and> hasResult a \<noteq> Some True) \<longrightarrow> polling s') \<and>
                (\<not> (analysis w = None \<or> (\<exists>a. analysis w = Some a \<and> hasResult a \<noteq> Some True)) \<longrightarrow>
                   pollingRef s' = pollingRef s \<and> intervals s' = intervals s)))"
proof -
  have inv: "single_interval s"
    using assms by (simp add: single_interval_run)
  have a: "has_result (data_analysis dat) \<longrightarrow>
            (let s' = state_of (poll_tick (Response True (Some dat)) s)
             in poll_tick (Response True (Some dat)) s = Returned s' \<and> stopped s' \<and> \<not> loading s' \<and>
                (workspace s \<noteq> None \<longrightarrow>
                   current_result s' = chain (data_analysis dat) result \<and>
                   (\<exists>v. render_section s' = Inr (Results v))))"
  proof
    assume r: "has_result (data_analysis dat)"
    then obtain a res where a: "data_analysis dat = Some a" "result a = Some res"
      by (auto simp: has_result_def split: option.splits)
    have t: "poll_tick (Response True (Some dat)) s =
               Returned ((set_analysis a s)\<lparr> pollingRef := None, intervals := [], loading := False \<rparr>)"
      using tick_stop [OF inv, of dat] r a by (simp add: Let_def)
    show "let s' = state_of (poll_tick (Response True (Some dat)) s)
          in poll_tick (Response True (Some dat)) s = Returned s' \<and> stopped s' \<and> \<not> loading s' \<and>
             (workspace s \<noteq> None \<longrightarrow>
                current_result s' = chain (data_analysis dat) result \<and>
                (\<exists>v. render_section s' = Inr (Results v)))"
      by (auto simp: t a state_of_def stopped_def set_analysis_def current_result_def chain_def
          render_section_eq render_result_eq)
  qed
  have b: "data_workspace dat = Some w \<longrightarrow>
            (let s' = fetchWorkspace_end (Response True (Some dat)) s
             in workspace s' = Some w \<and> \<not> loading s' \<and>
                (analysis w = None \<or> (\<exists>a. analysis w = Some a \<and> hasResult a \<noteq> Some True) \<longrightarrow> polling s') \<and>
                (\<not> (analysis w = None \<or> (\<exists>a. analysis w = Some a \<and> hasResult a \<noteq> Some True)) \<longrightarrow>
                   pollingRef s' = pollingRef s \<and> intervals s' = intervals s))"
  proof
    assume w: "data_workspace dat = Some w"
    have z: "pollingRef (s\<lparr> workspace := Some w \<rparr>) \<noteq> Some 0"
      using inv by (simp add: single_interval_def)
    have p: "polling ((pollStatus (s\<lparr> workspace := Some w \<rparr>))\<lparr> loading := False \<rparr>)"
      using polling_pollStatus [OF z] by (simp add: polling_def)
    show "let s' = fetchWorkspace_end (Response True (Some dat)) s
          in workspace s' = Some w \<and> \<not> loading s' \<and>
             (analysis w = None \<or> (\<exists>a. analysis w = Some a \<and> hasResult a \<noteq> Some True) \<longrightarrow> polling s') \<and>
             (\<not> (analysis w = None \<or> (\<exists>a. analysis w = Some a \<and> hasResult a \<noteq> Some True)) \<longrightarrow>
                pollingRef s' = pollingRef s \<and> intervals s' = intervals s)"
      using p by (simp add: load_ok w needs_polling_iff [symmetric] pollStatus_workspace Let_def)
  qed
  from a b show ?thesis by blast
qed

text \<open>
  C1, as amended, on the polling page and a response with status \<^verbatim>\<open>processing\<close> that carries
  a result, and on the load of a workspace whose analysis is \<^verbatim>\<open>completed\<close> without the flag.
\<close>

theorem result_is_authoritative_witness:
  "demo_polling = run 0 [FetchBegin, FetchEnd (workspace_response (demo_workspace None))] \<and>
   has_result (data_analysis demo_early) \<and>
   stopped (state_of (poll_tick (Response True (Some demo_early)) demo_polling)) \<and>
   \<not> loading (state_of (poll_tick (Response True (Some demo_early)) demo_polling)) \<and>
   current_result (state_of (poll_tick (Response True (Some demo_early)) demo_polling)) = Some long_result \<and>
   (\<exists>v. render_section (state_of (poll_tick (Response True (Some demo_early)) demo_polling)) = Inr (Results v)) \<and>
   polling (fetchWorkspace_end (workspace_response demo_unflagged) demo_polling)"
proof -
  have a: "has_result (data_analysis demo_early)"
    and a': "chain (data_analysis demo_early) result = Some long_result"
    by (simp_all add: demo_early_def status_data_def has_result_def demo_analysis_def chain_def)
  have b: "workspace demo_polling \<noteq> None"
    by (simp add: demo_polling_state)
  have c: "workspace_response demo_unflagged =
             Response True (Some \<lparr> data_error = None, data_status = None, data_analysis = None,
                                   data_workspace = Some demo_unflagged \<rparr>)"
    by (simp add: workspace_response_def)
  have d: "analysis demo_unflagged = None \<or>
           (\<exists>a. analysis demo_unflagged = Some a \<and> hasResult a \<noteq> Some True)"
    by (simp add: demo_unflagged_def demo_workspace_def demo_analysis_def)
  have e: "data_workspace \<lparr> data_error = None, data_status = None, data_analysis = None,
                            data_workspace = Some demo_unflagged \<rparr> = Some demo_unflagged"
    by simp
  have t1: "let s' = state_of (poll_tick (Response True (Some demo_early)) demo_polling)
            in poll_tick (Response True (Some demo_early)) demo_polling = Returned s' \<and> stopped s' \<and>
               \<not> loading s' \<and>
               (workspace demo_polling \<noteq> None \<longrightarrow>
                  current_result s' = chain (data_analysis demo_early) result \<and>
                  (\<exists>v. render_section s' = Inr (Results v)))"
    using result_is_authoritative [where s = demo_polling and h = 0
        and evs = "[FetchBegin, FetchEnd (workspace_response (demo_workspace None))]"
        and dat = demo_early and w = demo_unflagged, OF demo_polling_def] a
    by blast
  have t2: "polling (fetchWorkspace_end (workspace_response demo_unflagged) demo_polling)"
    using result_is_authoritative [where s = demo_polling and h = 0
        and evs = "[FetchBegin, FetchEnd (workspace_response (demo_workspace None))]"
        and dat = "\<lparr> data_error = None, data_status = None, data_analysis = None,
                      data_workspace = Some demo_unflagged \<rparr>" and w = demo_unflagged,
        OF demo_polling_def] d e
    unfolding c Let_def by blast
  from t1 b a' have t3:
    "stopped (state_of (poll_tick (Response True (Some demo_early)) demo_polling)) \<and>
     \<not> loading (state_of (poll_tick (Response True (Some demo_early)) demo_polling)) \<and>
     current_result (state_of (poll_tick (Response True (Some demo_early)) demo_polling)) = Some long_result \<and>
     (\<exists>v. render_section (state_of (poll_tick (Response True (Some demo_early)) demo_polling)) = Inr (Results v))"
    unfolding Let_def by simp
  from demo_polling_def a t2 t3 show ?thesis by blast
qed

text \<open>
  C1 as stated fails: the stored analysis has no result, and the load neither starts
  polling nor registers an interval; the page shows the "in progress" box.
\<close>

theorem load_without_result_counterexample:
  "result (demo_analysis ''processing'' (Some True) None) = None \<and>
   demo_flagged_page = run 0 [FetchBegin, FetchEnd (workspace_response demo_flagged)] \<and>
   workspace demo_flagged_page = Some (demo_workspace (Some (demo_analysis ''processing'' (Some True) None))) \<and>
   \<not> polling demo_flagged_page \<and> intervals demo_flagged_page = [] \<and>
   render_section demo_flagged_page = Inr InProgress"
  by (simp add: demo_flagged_page_def [symmetric])
    (simp add: demo_flagged_state demo_flagged_def demo_analysis_def demo_workspace_def polling_def
      render_section_eq current_result_def chain_def)

text \<open>
  C2, as amended. \<^verbatim>\<open>pollStatus\<close> registers its interval with a delay of 2000 ms, and every
  registered interval has that delay. While the component polls, an ok response with a
  body ends polling exactly when its \<^verbatim>\<open>status\<close> is \<^verbatim>\<open>completed\<close> or its analysis carries a
  result; the callback goes on to the final workspace fetch exactly when the response is ok,
  its \<^verbatim>\<open>status\<close> is \<^verbatim>\<open>completed\<close> and its analysis carries no result. Polling also ends on a
  non-ok response, a rejected fetch and a \<^verbatim>\<open>null\<close> body.
\<close>

theorem polling_stop_condition:
  assumes "s = run h evs" and "polling s"
  shows "(\<forall>p \<in> set (intervals s). snd p = 2000) \<and>
         (\<not> polling s0 \<longrightarrow> intervals (pollStatus s0) = (Suc (last_handle s0), 2000) # intervals s0) \<and>
         (polling (state_of (poll_tick (Response True (Some dat)) s)) \<longleftrightarrow>
            \<not> (data_status dat = Some ''completed'' \<or> has_result (data_analysis dat))) \<and>
         ((\<exists>s'. poll_tick r s = Awaiting s') \<longleftrightarrow>
            (\<exists>d. r = Response True (Some d) \<and> data_status d = Some ''completed'' \<and>
                 \<not> has_result (data_analysis d))) \<and>
         \<not> polling (state_of (poll_tick (Response False d0) s)) \<and>
         \<not> polling (state_of (poll_tick Rejected s)) \<and>
         \<not> polling (state_of (poll_tick (Response True None) s))"
proof -
  have inv: "single_interval s"
    using assms by (simp add: single_interval_run)
  have a: "\<forall>p \<in> set (intervals s). snd p = 2000"
    using inv by (auto simp: single_interval_def split: option.splits)
  have b: "\<not> polling s0 \<longrightarrow> intervals (pollStatus s0) = (Suc (last_handle s0), 2000) # intervals s0"
    by (simp add: pollStatus_def setInterval_def Let_def)
  have c: "polling (state_of (poll_tick (Response True (Some dat)) s)) \<longleftrightarrow>
            \<not> (data_status dat = Some ''completed'' \<or> has_result (data_analysis dat))"
  proof (cases "data_status dat = Some ''completed'' \<or> has_result (data_analysis dat)")
    case True
    then show ?thesis
      using tick_stop [OF inv, of dat]
      by (auto simp: state_of_def polling_def Let_def split: if_splits)
  next
    case False
    then show ?thesis
      using assms(2) tick_continue [of dat s]
      by (auto simp: state_of_def polling_def split: option.splits)
  qed
  have d: "(\<exists>s'. poll_tick r s = Awaiting s') \<longleftrightarrow>
            (\<exists>d. r = Response True (Some d) \<and> data_status d = Some ''completed'' \<and>
                 \<not> has_result (data_analysis d))"
    by (auto simp: poll_tick_def poll_try_def Let_def split: response.splits option.splits if_splits)
  have e: "\<not> polling (state_of (poll_tick (Response False d0) s))"
    by (simp add: tick_not_ok [OF inv] state_of_def polling_def)
  have f: "\<not> polling (state_of (poll_tick Rejected s))"
    using tick_threw [OF inv, of Rejected FetchError s]
    by (simp add: poll_try_def state_of_def polling_def)
  have g: "\<not> polling (state_of (poll_tick (Response True None) s))"
    using tick_threw [OF inv, of "Response True None" TypeError s]
    by (simp add: poll_try_def state_of_def polling_def)
  from a b c d e f g show ?thesis by blast
qed

text \<open>
  C2, as amended, on the polling page: a \<^verbatim>\<open>processing\<close> response without result keeps it
  polling, a \<^verbatim>\<open>completed\<close> one without result ends polling and leads to the final fetch.
\<close>

theorem polling_stop_condition_witness:
  "demo_polling = run 0 [FetchBegin, FetchEnd (workspace_response (demo_workspace None))] \<and>
   polling demo_polling \<and> intervals demo_polling = [(1, 2000)] \<and>
   polling (state_of (poll_tick (Response True (Some (status_data ''processing'' None))) demo_polling)) \<and>
   (\<exists>s'. poll_tick (Response True (Some (status_data ''completed'' None))) demo_polling = Awaiting s')"
  using polling_stop_condition [where s = demo_polling and h = 0
      and evs = "[FetchBegin, FetchEnd (workspace_response (demo_workspace None))]"
      and dat = "status_data ''processing'' None"
      and r = "Response True (Some (status_data ''completed'' None))"]
  by (simp add: demo_polling_def [symmetric])
    (simp add: demo_polling_state polling_def status_data_def has_result_def)

text \<open>
  C2 as stated fails: a non-ok response that reports \<^verbatim>\<open>processing\<close> and carries no result
  ends polling.
\<close>

theorem polling_stops_on_error_counterexample:
  "polling demo_polling \<and>
   data_status (status_data ''processing'' None) \<noteq> Some ''completed'' \<and>
   \<not> has_result (data_analysis (status_data ''processing'' None)) \<and>
   \<not> polling (state_of (poll_tick (Response False (Some (status_data ''processing'' None))) demo_polling)) \<and>
   intervals (state_of (poll_tick (Response False (Some (status_data ''processing'' None))) demo_polling)) = []"
  by (simp add: demo_polling_state page_defs)

section \<open>A failed job\<close>

lemma ticks_workspace:
  assumes "data_status dat \<noteq> Some ''completed''" and "\<not> has_result (data_analysis dat)"
  shows "workspace (foldl step s (replicate (Suc n) (Tick (Response True (Some dat))))) =
           (case data_analysis dat of
              None \<Rightarrow> workspace s
            | Some a \<Rightarrow> map_option (\<lambda>w. w\<lparr> analysis := Some a \<rparr>) (workspace s))"
proof (induction n arbitrary: s)
  case 0
  show ?case
    using tick_continue_workspace [OF assms, of s] by simp
next
  case (Suc n)
  have "workspace (foldl step s (replicate (Suc (Suc n)) (Tick (Response True (Some dat))))) =
          workspace (foldl step (step s (Tick (Response True (Some dat))))
                       (replicate (Suc n) (Tick (Response True (Some dat)))))"
    by simp
  also have "\<dots> = (case data_analysis dat of
                      None \<Rightarrow> workspace (step s (Tick (Response True (Some dat))))
                    | Some a \<Rightarrow> map_option (\<lambda>w. w\<lparr> analysis := Some a \<rparr>)
                                 (workspace (step s (Tick (Response True (Some dat))))))"
    by (rule Suc.IH)
  also have "\<dots> = (case data_analysis dat of
                      None \<Rightarrow> workspace s
                    | Some a \<Rightarrow> map_option (\<lambda>w. w\<lparr> analysis := Some a \<rparr>) (workspace s))"
    using tick_continue_workspace [OF assms, of s]
    by (cases "workspace s") (simp_all split: option.splits)
  finally show ?case .
qed

lemma run_append: "foldl step (run h evs) evs' = run h (evs @ evs')"
  by (simp add: run_def)

text \<open>
  C3, as amended. While the component polls, ok responses that report \<^verbatim>\<open>failed\<close> and carry
  no result change nothing but the stored analysis, however many of them arrive: the
  interval stays registered, the error and the loading flag stay as they were, the
  workspace's analysis is the reported one, and a page that showed no result shows the
  "in progress" box.
\<close>

theorem failed_job_keeps_polling:
  assumes "s = run h evs" and "polling s"
    and "data_status dat = Some ''failed''" and "\<not> has_result (data_analysis dat)"
  shows "(let s' = foldl step s (replicate n (Tick (Response True (Some dat))))
          in s' = run h (evs @ replicate n (Tick (Response True (Some dat)))) \<and>
             polling s' \<and> intervals s' = intervals s \<and> error s' = error s \<and>
             loading s' = loading s \<and>
             (current_result s = None \<longrightarrow> render_section s' = Inr InProgress) \<and>
             (0 < n \<longrightarrow>
                workspace s' =
                  (case data_analysis dat of
                     None \<Rightarrow> workspace s
                   | Some a \<Rightarrow> map_option (\<lambda>w. w\<lparr> analysis := Some a \<rparr>) (workspace s))))"
proof -
  have nc: "data_status dat \<noteq> Some ''completed''"
    using assms(3) by simp
  note k = ticks_continue [OF nc assms(4), of s n]
  have a: "foldl step s (replicate n (Tick (Response True (Some dat)))) =
             run h (evs @ replicate n (Tick (Response True (Some dat))))"
    using assms(1) by (simp add: run_append)
  have b: "polling (foldl step s (replicate n (Tick (Response True (Some dat)))))"
    using k assms(2) by (simp add: polling_def)
  have c: "current_result s = None \<longrightarrow>
             render_section (foldl step s (replicate n (Tick (Response True (Some dat))))) = Inr InProgress"
    using k by (simp add: render_section_eq)
  have d: "0 < n \<longrightarrow>
             workspace (foldl step s (replicate n (Tick (Response True (Some dat))))) =
               (case data_analysis dat of
                  None \<Rightarrow> workspace s
                | Some a \<Rightarrow> map_option (\<lambda>w. w\<lparr> analysis := Some a \<rparr>) (workspace s))"
    using ticks_workspace [OF nc assms(4), of s "n - 1"] by (cases n) simp_all
  from a b c d k show ?thesis
    unfolding Let_def by blast
qed

lemma upper_failed: "toUpperCase ''failed'' = ''FAILED''"
  by code_simp

lemma demo_failed_state:
  "demo_failed_page =
     \<lparr> workspace = Some (demo_workspace (Some ((demo_analysis ''failed'' None None)
                        \<lparr> message := Some ''ExtractionError: repository unreachable'' \<rparr>))),
       loading = False, error = [], selectedContributor = None, pollingRef = Some 1,
       intervals = [(1, 2000)], last_handle = 1 \<rparr>"
  by (simp add: demo_failed_page_def demo_polling_state demo_failed_def page_defs)

text \<open>C3, as amended, on the polling page and three responses of the failed job.\<close>

theorem failed_job_keeps_polling_witness:
  "demo_polling = run 0 [FetchBegin, FetchEnd (workspace_response (demo_workspace None))] \<and>
   polling demo_polling \<and> data_status demo_failed = Some ''failed'' \<and>
   \<not> has_result (data_analysis demo_failed) \<and>
   polling (foldl step demo_polling (replicate 3 (Tick (Response True (Some demo_failed))))) \<and>
   intervals (foldl step demo_polling (replicate 3 (Tick (Response True (Some demo_failed))))) = [(1, 2000)] \<and>
   error (foldl step demo_polling (replicate 3 (Tick (Response True (Some demo_failed))))) = [] \<and>
   render_section (foldl step demo_polling (replicate 3 (Tick (Response True (Some demo_failed))))) = Inr InProgress"
proof -
  have a: "polling demo_polling" "intervals demo_polling = [(1, 2000)]" "error demo_polling = []"
    "current_result demo_polling = None"
    by (simp_all add: demo_polling_state polling_def current_result_def chain_def demo_workspace_def)
  have b: "data_status demo_failed = Some ''failed''" "\<not> has_result (data_analysis demo_failed)"
    by (simp_all add: demo_failed_def status_data_def has_result_def demo_analysis_def)
  have t: "polling (foldl step demo_polling (replicate 3 (Tick (Response True (Some demo_failed))))) \<and>
           intervals (foldl step demo_polling (replicate 3 (Tick (Response True (Some demo_failed))))) =
             intervals demo_polling \<and>
           error (foldl step demo_polling (replicate 3 (Tick (Response True (Some demo_failed))))) =
             error demo_polling \<and>
           (current_result demo_polling = None \<longrightarrow>
              render_section (foldl step demo_polling (replicate 3 (Tick (Response True (Some demo_failed))))) =
                Inr InProgress)"
    using failed_job_keeps_polling [where s = demo_polling and h = 0
        and evs = "[FetchBegin, FetchEnd (workspace_response (demo_workspace None))]"
        and dat = demo_failed and n = 3, OF demo_polling_def a(1) b]
    unfolding Let_def by blast
  from t a b demo_polling_def show ?thesis
    by metis
qed

text \<open>
  C3 as stated fails: after a response of the failed job the page still polls, shows no
  error banner, and shows the status card and the "in progress" box.
\<close>

theorem failed_job_counterexample:
  "demo_failed_page = step demo_polling (Tick (Response True (Some demo_failed))) \<and>
   data_status demo_failed = Some ''failed'' \<and>
   polling demo_failed_page \<and> intervals demo_failed_page = [(1, 2000)] \<and>
   render demo_failed_page =
     Inr (Page (Some ''demo'') None
            (Workspace \<lparr> repository = ''https://example.org/repo'',
                         status_view = Some \<lparr> badge = ''FAILED'', progress_bar = None,
                                              status_message = Some ''ExtractionError: repository unreachable'' \<rparr>,
                         section_view = InProgress \<rparr>)
            None)"
proof -
  have a: "data_status demo_failed = Some ''failed''"
    by (simp add: demo_failed_def status_data_def)
  have b: "polling demo_failed_page" "intervals demo_failed_page = [(1, 2000)]"
    by (simp_all add: demo_failed_state polling_def)
  have c: "render demo_failed_page =
     Inr (Page (Some ''demo'') None
            (Workspace \<lparr> repository = ''https://example.org/repo'',
                         status_view = Some \<lparr> badge = ''FAILED'', progress_bar = None,
                                              status_message = Some ''ExtractionError: repository unreachable'' \<rparr>,
                         section_view = InProgress \<rparr>)
            None)"
    by (simp add: demo_failed_state render_def render_main_def
      render_section_eq current_result_def chain_def bind_js_def deref_def render_status_def
      demo_workspace_def demo_analysis_def upper_failed truthy_str_def)
  from demo_failed_page_def a b c show ?thesis
    by blast
qed

section \<open>The engine's jobs\<close>

subsection \<open>Results and completion\<close>

lemma transitions_keep_result:
  assumes "job_result j \<noteq> None \<longrightarrow> job_state j = Completed"
  shows "job_result (start_job t j) \<noteq> None \<longrightarrow> job_state (start_job t j) = Completed"
    and "job_result (advance_job j) \<noteq> None \<longrightarrow> job_state (advance_job j) = Completed"
    and "job_result (complete_job r t j) \<noteq> None \<longrightarrow> job_state (complete_job r t j) = Completed"
    and "job_result (fail_job e j) \<noteq> None \<longrightarrow> job_state (fail_job e j) = Completed"
  using assms
  by (auto simp: start_job_def advance_job_def complete_job_def fail_job_def split: option.splits)

lemma results_completed_update:
  assumes "results_completed reg"
    and "\<And>j. job_result j \<noteq> None \<longrightarrow> job_state j = Completed \<Longrightarrow>
              job_result (f j) \<noteq> None \<longrightarrow> job_state (f j) = Completed"
  shows "results_completed (update_job i f reg)"
  using assms by (induction reg) (simp_all add: results_completed_def update_job_def)

lemma results_completed_serve: "results_completed reg \<Longrightarrow> results_completed (serve reg q)"
proof (cases q)
  case (Submit ws)
  assume "results_completed reg"
  then show ?thesis
    by (simp add: Submit submit_def results_completed_def new_job_def)
next
  case (Start i t)
  assume "results_completed reg"
  then show ?thesis
    by (simp add: Start results_completed_update transitions_keep_result)
next
  case (Advance i)
  assume "results_completed reg"
  then show ?thesis
    by (simp add: Advance results_completed_update transitions_keep_result)
next
  case (Complete i r t)
  assume "results_completed reg"
  then show ?thesis
    by (simp add: Complete results_completed_update transitions_keep_result)
next
  case (Fail i e)
  assume "results_completed reg"
  then show ?thesis
    by (simp add: Fail results_completed_update transitions_keep_result)
qed

lemma results_completed_foldl:
  "results_completed reg \<Longrightarrow> results_completed (foldl serve reg rs)"
  by (induction rs arbitrary: reg) (simp_all add: results_completed_serve)

lemma results_completed_registry: "results_completed (registry rs)"
proof -
  have "results_completed []"
    by (simp add: results_completed_def)
  then show ?thesis
    unfolding registry_def by (rule results_completed_foldl)
qed

lemma poll_member: "poll i reg = Inr p \<Longrightarrow> \<exists>j \<in> set reg. p = payload_of j"
  by (auto simp: poll_def find_Some_iff split: option.splits)

text \<open>
  C4. Whatever requests the registry has served, a status payload that carries a result
  has the status \<open>completed\<close>: none is \<open>queued\<close>, \<open>processing\<close> or \<open>failed\<close>.
\<close>

theorem result_only_when_completed:
  assumes "poll i (registry rs) = Inr p" and "payload_result p \<noteq> None"
  shows "payload_status p = Completed"
proof -
  obtain j where j: "j \<in> set (registry rs)" "p = payload_of j"
    using poll_member [OF assms(1)] by blast
  have "job_result j \<noteq> None \<longrightarrow> job_state j = Completed"
    using results_completed_registry [of rs] j(1) by (simp add: results_completed_def list_all_iff)
  with assms(2) j(2) show ?thesis
    by (simp add: payload_of_def)
qed

lemma demo_registry:
  "registry demo_requests =
     [\<lparr> job_id = 0, job_workspace = 7, job_state = Completed, job_progress = 100,
        job_step = Some Aggregating, job_message = [], job_startedAt = Some 100,
        job_completedAt = Some 160, job_result = Some zero_result \<rparr>]"
  by (simp add: registry_def demo_requests_def submit_def active_jobs_def new_job_def
      update_job_def start_job_def advance_job_def complete_job_def)

text \<open>C4 on a registry whose one job has been completed.\<close>

theorem result_only_when_completed_witness:
  "poll 0 (registry demo_requests) = Inr (payload_of (hd (registry demo_requests))) \<and>
   payload_result (payload_of (hd (registry demo_requests))) = Some zero_result \<and>
   payload_status (payload_of (hd (registry demo_requests))) = Completed"
proof -
  have a: "poll 0 (registry demo_requests) = Inr (payload_of (hd (registry demo_requests)))"
    by (simp add: demo_registry poll_def)
  have b: "payload_result (payload_of (hd (registry demo_requests))) = Some zero_result"
    by (simp add: demo_registry payload_of_def)
  have "payload_status (payload_of (hd (registry demo_requests))) = Completed"
    using result_only_when_completed [OF a] b by simp
  with a b show ?thesis by blast
qed

subsection \<open>An empty history\<close>

text \<open>
  C5. A job in state \<open>processing\<close> whose repository has an empty history is completed, not
  failed, whatever the later stages would do: its result has no files, no commits, no bus
  factor and no contributors.
\<close>

theorem empty_history_completes:
  assumes "job_state j = Processing"
  shows "job_state (execute stages (History []) t j) = Completed \<and>
         (\<exists>r. job_result (execute stages (History []) t j) = Some r \<and>
              metric_total_files (engine_health r) = 0 \<and>
              metric_total_commits (engine_health r) = 0 \<and>
              metric_bus_factor (engine_health r) = None \<and>
              engine_contributors r = [])"
  using assms by (simp add: execute_def extract_history_def complete_job_def zero_result_def)

text \<open>C5 on a job that has just been started.\<close>

theorem empty_history_completes_witness:
  "job_state demo_job = Processing \<and>
   job_state (execute (\<lambda>ds. Inl AggregationError) (History []) 160 demo_job) = Completed \<and>
   job_result (execute (\<lambda>ds. Inl AggregationError) (History []) 160 demo_job) = Some zero_result"
proof -
  have a: "job_state demo_job = Processing"
    by (simp add: demo_job_def start_job_def new_job_def)
  have b: "job_result (execute (\<lambda>ds. Inl AggregationError) (History []) 160 demo_job) = Some zero_result"
    by (simp add: a execute_def extract_history_def complete_job_def)
  from empty_history_completes [OF a, of "\<lambda>ds. Inl AggregationError" 160] a b show ?thesis
    by blast
qed

subsection \<open>One active job for each workspace\<close>

lemma transitions_keep_workspace:
  "job_workspace (start_job t j) = job_workspace j"
  "job_workspace (advance_job j) = job_workspace j"
  "job_workspace (complete_job r t j) = job_workspace j"
  "job_workspace (fail_job e j) = job_workspace j"
  by (simp_all add: start_job_def advance_job_def complete_job_def fail_job_def split: option.splits)

lemma transitions_not_revive:
  "non_terminal (start_job t j) \<Longrightarrow> non_terminal j"
  "non_terminal (advance_job j) \<Longrightarrow> non_terminal j"
  "non_terminal (complete_job r t j) \<Longrightarrow> non_terminal j"
  "non_terminal (fail_job e j) \<Longrightarrow> non_terminal j"
  by (auto simp: non_terminal_def start_job_def advance_job_def complete_job_def fail_job_def
      split: option.splits if_splits)

lemma active_update_le:
  assumes "\<And>j. job_workspace (f j) = job_workspace j"
    and "\<And>j. non_terminal (f j) \<Longrightarrow> non_terminal j"
  shows "length (active_jobs ws (update_job i f reg)) \<le> length (active_jobs ws reg)"
proof (induction reg)
  case Nil
  show ?case by (simp add: active_jobs_def update_job_def)
next
  case (Cons j reg)
  then show ?case
    using assms(1) [of j] assms(2) [of j]
    by (auto simp: active_jobs_def update_job_def)
qed

lemma active_transitions:
  "length (active_jobs ws (update_job i (start_job t) reg)) \<le> length (active_jobs ws reg)"
  "length (active_jobs ws (update_job i advance_job reg)) \<le> length (active_jobs ws reg)"
  "length (active_jobs ws (update_job i (complete_job r t) reg)) \<le> length (active_jobs ws reg)"
  "length (active_jobs ws (update_job i (fail_job e) reg)) \<le> length (active_jobs ws reg)"
  by (rule active_update_le, rule transitions_keep_workspace, erule transitions_not_revive)+

lemma active_append:
  "active_jobs ws (reg @ [new_job i w]) = active_jobs ws reg @ (if w = ws then [new_job i w] else [])"
  by (simp add: active_jobs_def new_job_def non_terminal_def)

lemma serve_submit:
  "serve reg (Submit w) = (if active_jobs w reg \<noteq> [] then reg else reg @ [new_job (length reg) w])"
  by (simp add: submit_def)

lemma active_serve: "length (active_jobs ws reg) \<le> 1 \<Longrightarrow> length (active_jobs ws (serve reg q)) \<le> 1"
proof (cases q)
  case (Submit w)
  assume le: "length (active_jobs ws reg) \<le> 1"
  show ?thesis
  proof (cases "active_jobs w reg \<noteq> []")
    case True
    with le show ?thesis
      by (simp add: Submit serve_submit del: serve.simps)
  next
    case False
    with le show ?thesis
      by (cases "w = ws") (simp_all add: Submit serve_submit active_append del: serve.simps)
  qed
next
  case (Start i t)
  assume "length (active_jobs ws reg) \<le> 1"
  then show ?thesis
    unfolding Start serve.simps by (rule le_trans [OF active_transitions(1)])
next
  case (Advance i)
  assume "length (active_jobs ws reg) \<le> 1"
  then show ?thesis
    unfolding Advance serve.simps by (rule le_trans [OF active_transitions(2)])
next
  case (Complete i r t)
  assume "length (active_jobs ws reg) \<le> 1"
  then show ?thesis
    unfolding Complete serve.simps by (rule le_trans [OF active_transitions(3)])
next
  case (Fail i e)
  assume "length (active_jobs ws reg) \<le> 1"
  then show ?thesis
    unfolding Fail serve.simps by (rule le_trans [OF active_transitions(4)])
qed

lemma active_foldl:
  "length (active_jobs ws reg) \<le> 1 \<Longrightarrow> length (active_jobs ws (foldl serve reg rs)) \<le> 1"
proof (induction rs arbitrary: reg)
  case Nil
  then show ?case by simp
next
  case (Cons q rs)
  have "length (active_jobs ws (serve reg q)) \<le> 1"
    using Cons.prems by (rule active_serve)
  then have "length (active_jobs ws (foldl serve (serve reg q) rs)) \<le> 1"
    by (rule Cons.IH)
  then show ?case by simp
qed

text \<open>
  C6. Whatever requests the registry has served, a workspace has at most one job that is
  \<open>queued\<close> or \<open>processing\<close>. A submission for a workspace that has such a job is rejected
  and leaves the registry as it was; a submission for a workspace without one adds a
  \<open>queued\<close> job.
\<close>

theorem single_active_job:
  "length (active_jobs ws (registry rs)) \<le> 1 \<and>
   (active_jobs ws (registry rs) \<noteq> [] \<longrightarrow>
      submit ws (registry rs) = Inl Rejection \<and>
      serve (registry rs) (Submit ws) = registry rs) \<and>
   (active_jobs ws (registry rs) = [] \<longrightarrow>
      submit ws (registry rs) =
        Inr (length (registry rs), registry rs @ [new_job (length (registry rs)) ws]) \<and>
      active_jobs ws (serve (registry rs) (Submit ws)) = [new_job (length (registry rs)) ws])"
proof -
  have "length (active_jobs ws []) \<le> 1"
    by (simp add: active_jobs_def)
  then have a: "length (active_jobs ws (registry rs)) \<le> 1"
    unfolding registry_def by (rule active_foldl)
  have b: "active_jobs ws (registry rs) \<noteq> [] \<longrightarrow>
      submit ws (registry rs) = Inl Rejection \<and>
      serve (registry rs) (Submit ws) = registry rs"
    by (simp add: submit_def)
  have c: "active_jobs ws (registry rs) = [] \<longrightarrow>
      submit ws (registry rs) =
        Inr (length (registry rs), registry rs @ [new_job (length (registry rs)) ws]) \<and>
      active_jobs ws (serve (registry rs) (Submit ws)) = [new_job (length (registry rs)) ws]"
    by (simp add: serve_submit active_append submit_def del: serve.simps)
  from a b c show ?thesis by blast
qed

text \<open>
  C6 on a registry whose one job, for workspace 7, is \<open>processing\<close>: a second submission
  for workspace 7 is rejected.
\<close>

theorem single_active_job_witness:
  "active_jobs 7 (registry [Submit 7, Start 0 100]) \<noteq> [] \<and>
   submit 7 (registry [Submit 7, Start 0 100]) = Inl Rejection \<and>
   registry [Submit 7, Start 0 100, Submit 7] = registry [Submit 7, Start 0 100] \<and>
   length (registry [Submit 7, Start 0 100, Submit 7]) = 1"
proof -
  have r: "registry [Submit 7, Start 0 100] = [start_job 100 (new_job 0 7)]"
    by (simp add: registry_def submit_def active_jobs_def update_job_def new_job_def)
  have a: "active_jobs 7 (registry [Submit 7, Start 0 100]) \<noteq> []"
    by (simp add: r active_jobs_def start_job_def new_job_def non_terminal_def)
  have s: "registry [Submit 7, Start 0 100, Submit 7] = serve (registry [Submit 7, Start 0 100]) (Submit 7)"
    by (simp add: registry_def)
  from single_active_job [of 7 "[Submit 7, Start 0 100]"] a
  have "submit 7 (registry [Submit 7, Start 0 100]) = Inl Rejection"
    and "serve (registry [Submit 7, Start 0 100]) (Submit 7) = registry [Submit 7, Start 0 100]"
    by blast+
  with a s r show ?thesis
    by simp
qed

end
